theory Spec2Isabelle
  imports Complex_Main
begin

section \<open>JavaScript strings\<close>

text \<open>
  A JavaScript string is a sequence of UTF-16 code units and \<open>length\<close> counts them. The
  model uses \<^typ>\<open>string\<close>, so a character stands for a code unit below 256 (ASCII and
  Latin-1); on that range \<open>toLowerCase\<close> never changes the length of a string.
\<close>

definition upperLetters :: string where
  "upperLetters = ''ABCDEFGHIJKLMNOPQRSTUVWXYZ'' @
     [CHR 0xC0, CHR 0xC1, CHR 0xC2, CHR 0xC3, CHR 0xC4, CHR 0xC5, CHR 0xC6, CHR 0xC7,
      CHR 0xC8, CHR 0xC9, CHR 0xCA, CHR 0xCB, CHR 0xCC, CHR 0xCD, CHR 0xCE, CHR 0xCF,
      CHR 0xD0, CHR 0xD1, CHR 0xD2, CHR 0xD3, CHR 0xD4, CHR 0xD5, CHR 0xD6,
      CHR 0xD8, CHR 0xD9, CHR 0xDA, CHR 0xDB, CHR 0xDC, CHR 0xDD, CHR 0xDE]"

definition lowerLetters :: string where
  "lowerLetters = ''abcdefghijklmnopqrstuvwxyz'' @
     [CHR 0xE0, CHR 0xE1, CHR 0xE2, CHR 0xE3, CHR 0xE4, CHR 0xE5, CHR 0xE6, CHR 0xE7,
      CHR 0xE8, CHR 0xE9, CHR 0xEA, CHR 0xEB, CHR 0xEC, CHR 0xED, CHR 0xEE, CHR 0xEF,
      CHR 0xF0, CHR 0xF1, CHR 0xF2, CHR 0xF3, CHR 0xF4, CHR 0xF5, CHR 0xF6,
      CHR 0xF8, CHR 0xF9, CHR 0xFA, CHR 0xFB, CHR 0xFC, CHR 0xFD, CHR 0xFE]"

fun translate :: "string \<Rightarrow> string \<Rightarrow> char \<Rightarrow> char" where
  "translate (u # us) (l # ls) c = (if c = u then l else translate us ls c)"
| "translate _ _ c = c"

definition toLowerCase :: "string \<Rightarrow> string" where
  "toLowerCase s = map (translate upperLetters lowerLetters) s"

text \<open>The character class \<open>[a-z0-9]\<close>.\<close>

definition isLowerAlnum :: "char \<Rightarrow> bool" where
  "isLowerAlnum c = (c \<in> set ''abcdefghijklmnopqrstuvwxyz0123456789'')"

text \<open>The character class \<open>\s\<close> below code unit 256: tab, LF, VT, FF, CR, space, NBSP.\<close>

definition isSpace :: "char \<Rightarrow> bool" where
  "isSpace c = (c \<in> set [CHR 0x09, CHR 0x0A, CHR 0x0B, CHR 0x0C, CHR 0x0D, CHR 0x20, CHR 0xA0])"

text \<open>\<open>s.replace(/\s+/g, ' ')\<close>: every maximal run of white space becomes one space.\<close>

fun collapseFrom :: "bool \<Rightarrow> string \<Rightarrow> string" where
  "collapseFrom inRun [] = []"
| "collapseFrom inRun (c # cs) =
     (if isSpace c then (if inRun then collapseFrom True cs else CHR '' '' # collapseFrom True cs)
      else c # collapseFrom False cs)"

definition collapseSpaces :: "string \<Rightarrow> string" where
  "collapseSpaces s = collapseFrom False s"

text \<open>\<open>s.trim()\<close>.\<close>

definition trim :: "string \<Rightarrow> string" where
  "trim s = rev (dropWhile isSpace (rev (dropWhile isSpace s)))"

text \<open>\<open>s.endsWith(suffix)\<close>.\<close>

definition endsWith :: "string \<Rightarrow> string \<Rightarrow> bool" where
  "endsWith s suffix = (length suffix \<le> length s \<and> drop (length s - length suffix) s = suffix)"

text \<open>
  \<open>hay.indexOf(needle, fromIndex)\<close>: the start position is clamped to \<open>[0, hay.length]\<close>,
  the result is the first position at or after it where \<open>needle\<close> occurs, or \<open>-1\<close>.
\<close>

fun indexOfFrom :: "string \<Rightarrow> string \<Rightarrow> nat \<Rightarrow> int" where
  "indexOfFrom [] needle k = (if needle = [] then int k else - 1)"
| "indexOfFrom (c # cs) needle k =
     (if take (length needle) (c # cs) = needle then int k
      else indexOfFrom cs needle (Suc k))"

definition indexOf :: "string \<Rightarrow> string \<Rightarrow> int \<Rightarrow> int" where
  "indexOf hay needle fromIndex =
     (let start = min (nat (max fromIndex 0)) (length hay)
      in indexOfFrom (drop start hay) needle start)"

text \<open>\<open>s.substring(start, end)\<close> for \<open>0 \<le> start \<le> stop \<le> s.length\<close>, as the callers use it.\<close>

definition substring :: "string \<Rightarrow> int \<Rightarrow> int \<Rightarrow> string" where
  "substring s start stop = take (nat stop - nat start) (drop (nat start) s)"

text \<open>\<open>s.split('\n')\<close>: the lines of a text; an empty text has one empty line.\<close>

fun splitLines :: "string \<Rightarrow> string list" where
  "splitLines [] = [] # []"
| "splitLines (c # cs) =
     (if c = CHR 0x0A then [] # splitLines cs
      else (c # hd (splitLines cs)) # tl (splitLines cs))"

text \<open>The decimal numeral of a natural number, as template literals print it.\<close>

definition digitChar :: "nat \<Rightarrow> char" where
  "digitChar d = ''0123456789'' ! d"

fun showNat :: "nat \<Rightarrow> string" where
  "showNat n = (if n < 10 then [digitChar n] else showNat (n div 10) @ [digitChar (n mod 10)])"

declare showNat.simps [simp del]

section \<open>Data model (types.ts)\<close>

datatype AnnotationStyle = highlight | underline

definition styleName :: "AnnotationStyle \<Rightarrow> string" where
  "styleName st = (case st of highlight \<Rightarrow> ''highlight'' | underline \<Rightarrow> ''underline'')"

text \<open>The constant tag fields \<open>type: 'annotation'\<close> and \<open>type: 'bookmark'\<close> are left out.\<close>

record Annotation =
  cfiRange :: string
  a_text :: string
  a_note :: string
  color :: string
  style :: AnnotationStyle
  tags :: "string list"
  date :: string

record BookmarkData =
  bm_cfi :: string
  bm_text :: string
  bm_date :: string

text \<open>
  \<open>Partial<BookUserData>\<close>: every field may be absent. The same type serves for a stored
  bundle and for the partial update handed to \<open>saveUserData\<close>.
\<close>

record BookUserData =
  d_id :: "string option"
  d_lastCfi :: "string option"
  d_progress :: "real option"
  d_bookmarks :: "BookmarkData list option"
  d_annotations :: "Annotation list option"
  d_lastRead :: "nat option"

definition noFields :: BookUserData where
  "noFields = \<lparr>d_id = None, d_lastCfi = None, d_progress = None, d_bookmarks = None,
               d_annotations = None, d_lastRead = None\<rparr>"

section \<open>Local storage (utils/storage)\<close>

text \<open>
  The value under the key \<open>lumina_reader_data\<close> is either the JSON text of an object that
  maps book ids to bundles, or some other text, on which the body of the \<open>try\<close> block
  throws. \<open>setItem\<close> throws when the quota is exhausted.
\<close>

datatype StoredItem = Json "string \<rightharpoonup> BookUserData" | Garbage

record LocalStorage =
  dataItem :: "StoredItem option"
  quotaExceeded :: bool

datatype StorageError = SyntaxError | QuotaExceededError

text \<open>\<open>JSON.parse(localStorage.getItem(STORAGE_KEYS.DATA) || '{}')\<close>\<close>

definition parseData :: "LocalStorage \<Rightarrow> StorageError + (string \<rightharpoonup> BookUserData)" where
  "parseData ls =
     (case dataItem ls of
        None \<Rightarrow> Inr Map.empty
      | Some (Json store) \<Rightarrow> Inr store
      | Some Garbage \<Rightarrow> Inl SyntaxError)"

text \<open>\<open>localStorage.setItem(STORAGE_KEYS.DATA, JSON.stringify(store))\<close>\<close>

definition setData :: "(string \<rightharpoonup> BookUserData) \<Rightarrow> LocalStorage \<Rightarrow> StorageError + LocalStorage" where
  "setData store ls =
     (if quotaExceeded ls then Inl QuotaExceededError
      else Inr (ls\<lparr>dataItem := Some (Json store)\<rparr>))"

text \<open>Object spread \<open>{...old, ...new}\<close>: a field of \<open>new\<close> wins where it is present.\<close>

definition orElse :: "'a option \<Rightarrow> 'a option \<Rightarrow> 'a option" where
  "orElse new old = (case new of Some v \<Rightarrow> Some v | None \<Rightarrow> old)"

definition spread :: "BookUserData \<Rightarrow> BookUserData \<Rightarrow> BookUserData" where
  "spread old new =
     \<lparr>d_id = orElse (d_id new) (d_id old),
      d_lastCfi = orElse (d_lastCfi new) (d_lastCfi old),
      d_progress = orElse (d_progress new) (d_progress old),
      d_bookmarks = orElse (d_bookmarks new) (d_bookmarks old),
      d_annotations = orElse (d_annotations new) (d_annotations old),
      d_lastRead = orElse (d_lastRead new) (d_lastRead old)\<rparr>"

text \<open>
  The parsed store is an ordinary object: the map holds its own properties, and it
  inherits the properties of \<open>Object.prototype\<close>, whose names are these.
\<close>

definition objectPrototypeKeys :: "string list" where
  "objectPrototypeKeys =
     [''constructor'', ''__defineGetter__'', ''__defineSetter__'', ''hasOwnProperty'',
      ''__lookupGetter__'', ''__lookupSetter__'', ''isPrototypeOf'', ''propertyIsEnumerable'',
      ''toString'', ''valueOf'', ''__proto__'', ''toLocaleString'']"

text \<open>
  The read \<open>store[key]\<close>: the own property; or, for an inherited name, a function or
  \<open>Object.prototype\<close> itself, an object that is truthy, has none of the fields of a
  bundle and spreads no field; or \<open>undefined\<close>.
\<close>

definition property :: "(string \<rightharpoonup> BookUserData) \<Rightarrow> string \<Rightarrow> BookUserData option" where
  "property store key =
     (case store key of
        Some b \<Rightarrow> Some b
      | None \<Rightarrow> if key \<in> set objectPrototypeKeys then Some noFields else None)"

text \<open>
  The assignment \<open>store[key] = bundle\<close>: it writes the own property, except for the key
  \<open>__proto__\<close> on a store without an own property of that name, where it runs the
  inherited setter: the prototype of the store changes and its own properties do not.
\<close>

definition assign :: "(string \<rightharpoonup> BookUserData) \<Rightarrow> string \<Rightarrow> BookUserData
                         \<Rightarrow> (string \<rightharpoonup> BookUserData)" where
  "assign store key bundle =
     (if key = ''__proto__'' \<and> store key = None then store else store(key \<mapsto> bundle))"

text \<open>\<open>store[bookId]\<close> spread into an object literal: \<open>undefined\<close> contributes no field.\<close>

definition stored :: "(string \<rightharpoonup> BookUserData) \<Rightarrow> string \<Rightarrow> BookUserData" where
  "stored store bookId = (case property store bookId of None \<Rightarrow> noFields | Some b \<Rightarrow> b)"

text \<open>
  \<open>saveUserData(bookId, data)\<close>, with the reading of \<open>Date.now()\<close> as \<open>now\<close>. An exception
  anywhere in the \<open>try\<close> block is caught and logged, and storage stays as it was.
  \<open>JSON.stringify\<close> writes the own properties of the store.
\<close>

definition saveUserData :: "string \<Rightarrow> BookUserData \<Rightarrow> nat \<Rightarrow> LocalStorage \<Rightarrow> LocalStorage" where
  "saveUserData bookId data now ls =
     (case parseData ls of
        Inl e \<Rightarrow> ls
      | Inr store \<Rightarrow>
          (let bundle = (spread (stored store bookId) data)
                          \<lparr>d_id := Some bookId, d_lastRead := Some now\<rparr>
           in case setData (assign store bookId bundle) ls of
                Inl e \<Rightarrow> ls
              | Inr ls' \<Rightarrow> ls'))"

text \<open>\<open>loadUserData(bookId)\<close>: \<open>store[bookId] || null\<close>, and \<open>null\<close> when parsing throws.\<close>

definition loadUserData :: "string \<Rightarrow> LocalStorage \<Rightarrow> BookUserData option" where
  "loadUserData bookId ls =
     (case parseData ls of
        Inl e \<Rightarrow> None
      | Inr store \<Rightarrow> property store bookId)"


section \<open>The rendering engine's overlay registry\<close>

text \<open>
  The registry behind \<open>rendition.annotations\<close> belongs to the rendering engine, which the
  repository consumes as a library. The Reader reads the entries of its \<open>_annotations\<close>
  object through their fields \<open>type\<close>, \<open>cfiRange\<close> and \<open>className\<close>. An entry is identified
  by its anchor and kind, and the entries keep their insertion order.
\<close>

record Overlay =
  o_type :: string
  o_cfiRange :: string
  o_className :: string

definition sameOverlay :: "string \<Rightarrow> string \<Rightarrow> Overlay \<Rightarrow> bool" where
  "sameOverlay cfi kind ov = (o_cfiRange ov = cfi \<and> o_type ov = kind)"

text \<open>
  Modelled from the spec: \<open>annotations.add(type, cfiRange, data, undefined, className)\<close> is
  a call into the engine. Section 4.1 of the specification gives the contract,
  \<open>addOverlay(anchor, kind, styleClass)\<close> is idempotent: adding at an anchor and kind that
  has an overlay replaces that overlay, otherwise the overlay is appended.
\<close>

fun annotations_add :: "string \<Rightarrow> string \<Rightarrow> string \<Rightarrow> Overlay list \<Rightarrow> Overlay list" where
  "annotations_add kind cfi cls [] = [\<lparr>o_type = kind, o_cfiRange = cfi, o_className = cls\<rparr>]"
| "annotations_add kind cfi cls (ov # ovs) =
     (if sameOverlay cfi kind ov
      then \<lparr>o_type = kind, o_cfiRange = cfi, o_className = cls\<rparr> # ovs
      else ov # annotations_add kind cfi cls ovs)"

text \<open>
  Modelled from the spec: \<open>annotations.remove(cfiRange, type)\<close> is a call into the engine.
  Section 4.1 of the specification gives the contract, \<open>removeOverlay(anchor, kind)\<close> is
  idempotent, and removing an overlay that does not exist is a no-op, not an error.
\<close>

definition annotations_remove :: "string \<Rightarrow> string \<Rightarrow> Overlay list \<Rightarrow> Overlay list" where
  "annotations_remove cfi kind ovs = filter (\<lambda>ov. \<not> sameOverlay cfi kind ov) ovs"

section \<open>The book and its live document\<close>

text \<open>\<open>FileType\<close>: the strings \<open>'epub'\<close>, \<open>'txt'\<close>, \<open>'pdf'\<close> and \<open>'unsupported'\<close>.\<close>

datatype FileType = epub_type | txt_type | pdf_type | unsupported_type

record Book =
  book_id :: string
  title :: string
  author :: string
  content :: string
  fileType :: FileType
  coverUrl :: "string option"
  textContent :: "string option"
  isContextEnabled :: bool

text \<open>
  What loading a spine item gives: the load throws, or the document has no body, or the
  body has the text \<open>innerText || textContent || ""\<close>.
\<close>

datatype Loaded = LoadFails | NoBody | Body string

record SpineItem =
  href :: "string option"
  idref :: "string option"
  loaded :: Loaded

record EpubBook =
  spineItems :: "SpineItem list"

text \<open>\<open>spine.get(i)\<close>: the item at position \<open>i\<close>, or \<open>null\<close>.\<close>

definition spine_get :: "EpubBook \<Rightarrow> nat \<Rightarrow> SpineItem option" where
  "spine_get bk i = (if i < length (spineItems bk) then Some (spineItems bk ! i) else None)"

text \<open>A string used as a condition: \<open>undefined\<close> and the empty string are falsy.\<close>

definition truthy :: "string option \<Rightarrow> bool" where
  "truthy v = (case v of None \<Rightarrow> False | Some t \<Rightarrow> t \<noteq> [])"

text \<open>
  The children of the body of the mounted chapter, in document order: paragraphs, and the
  containers of class \<open>inline-ai-portal-mount\<close>, each a DOM element of its own
  (numbered as it is created).
\<close>

datatype Node = Paragraph string | PortalMount nat

record Dom =
  nodes :: "Node list"
  created :: nat


text \<open>\<open>p.insertAdjacentElement('afterend', container)\<close> for the paragraph at position \<open>k\<close>.\<close>

definition insertAfter :: "nat \<Rightarrow> Node \<Rightarrow> Dom \<Rightarrow> Dom" where
  "insertAfter k nd d = d\<lparr>nodes := take (Suc k) (nodes d) @ nd # drop (Suc k) (nodes d)\<rparr>"

section \<open>State of the Reader component (components/Reader.tsx)\<close>

datatype AiDisplayMode = inline | popup

record SelectionMenu =
  visible :: bool
  menu_x :: real
  menu_y :: real
  menu_cfiRange :: "string option"
  menu_text :: string

record ActiveInlineNote =
  note_id :: string
  note_cfi :: "string option"
  textContext :: string
  aiResponse :: string
  isLoading :: bool
  domNode :: "nat option"

record PendingAnnotation =
  p_cfi :: string
  p_text :: string

record SearchMatch =
  m_cfi :: string
  m_excerpt :: string

record SearchResult =
  r_cfi :: string
  r_excerpt :: string
  r_label :: string
  r_context :: string

text \<open>
  The props \<open>book\<close> and \<open>settings.aiDisplayMode\<close>, the refs, the \<open>useState\<close> cells, and the
  three things outside the component that its handlers change: the position the engine
  was last asked to display, the live document, and local storage. \<open>renditionRef\<close> holds
  the overlay registry of the rendition, or \<open>None\<close> for \<open>renditionRef.current === null\<close>.
\<close>

record Reader =
  book :: "Book option"
  aiDisplayMode :: AiDisplayMode
  renditionRef :: "Overlay list option"
  bookRef :: "EpubBook option"
  selectionTimeRef :: nat
  menu :: SelectionMenu
  currentCfi :: string
  progress :: real
  bookmarks :: "BookmarkData list"
  annotations :: "Annotation list"
  inlineNotes :: "ActiveInlineNote list"
  activePopupNote :: "ActiveInlineNote option"
  isAnnotationModalOpen :: bool
  pendingAnnotation :: "PendingAnnotation option"
  editingAnnotation :: "Annotation option"
  isSearchBarOpen :: bool
  searchQuery :: string
  searchMatches :: "SearchMatch list"
  currentMatchIndex :: int
  isSearching :: bool
  displayed :: "string option"
  document :: Dom
  localStorage :: LocalStorage

datatype JsError = TypeError

text \<open>
  How a handler ends: it returns, or it throws; either way the state updates it made up
  to that point stand.
\<close>

datatype Outcome = Returned Reader | Threw JsError Reader

definition stateOf :: "Outcome \<Rightarrow> Reader" where
  "stateOf out = (case out of Returned s \<Rightarrow> s | Threw e s \<Rightarrow> s)"

text \<open>\<open>xs[i]\<close> on a JavaScript array: \<open>undefined\<close> outside the array.\<close>

definition arrayAt :: "'a list \<Rightarrow> int \<Rightarrow> 'a option" where
  "arrayAt xs i = (if 0 \<le> i \<and> i < int (length xs) then Some (xs ! nat i) else None)"

section \<open>Inline AI notes\<close>

text \<open>\<open>openInlinePanel(text, contextId, domNode)\<close>, with the value of \<open>uuidv4()\<close> as \<open>uuid\<close>.\<close>

definition openInlinePanel :: "string \<Rightarrow> string \<Rightarrow> nat option \<Rightarrow> string \<Rightarrow> Reader \<Rightarrow> Reader" where
  "openInlinePanel txt contextId node uuid s =
     (let newNote = \<lparr>note_id = uuid, note_cfi = Some contextId, textContext = txt,
                      aiResponse = [], isLoading = False, domNode = node\<rparr>
      in if aiDisplayMode s = popup then s\<lparr>activePopupNote := Some newNote\<rparr>
         else s\<lparr>inlineNotes := inlineNotes s @ [newNote]\<rparr>)"


text \<open>
  The click handler of the button rendered after paragraph \<open>idx\<close> of a plain-text book.
  The button exists only for a paragraph that is not blank.
\<close>

definition txtTriggerClick :: "nat \<Rightarrow> string \<Rightarrow> Reader \<Rightarrow> Reader" where
  "txtTriggerClick idx uuid s =
     (case book s of
        None \<Rightarrow> s
      | Some b \<Rightarrow>
          if fileType b = txt_type \<and> idx < length (splitLines (content b))
          then
            (let para = splitLines (content b) ! idx;
                 inlineNote = find (\<lambda>n. note_id n = ''txt-'' @ showNat idx) (inlineNotes s)
             in if trim para = [] then s
                else if inlineNote = None
                then openInlinePanel para (''txt-'' @ showNat idx) None uuid s
                else s)
          else s)"

text \<open>
  The \<open>onclick\<close> handler that the content hook attaches to the trigger of the paragraph at
  position \<open>k\<close> of the mounted chapter, with the reading of \<open>Date.now()\<close> as \<open>now\<close>.
\<close>

definition epubTriggerClick :: "nat \<Rightarrow> nat \<Rightarrow> string \<Rightarrow> Reader \<Rightarrow> Reader" where
  "epubTriggerClick k now uuid s =
     (case arrayAt (nodes (document s)) (int k) of
        None \<Rightarrow> s
      | Some (PortalMount h) \<Rightarrow> s
      | Some (Paragraph innerText) \<Rightarrow>
          (case arrayAt (nodes (document s)) (int k + 1) of
             Some (PortalMount h) \<Rightarrow> s
           | _ \<Rightarrow>
               if aiDisplayMode s = popup
               then openInlinePanel innerText (''p-'' @ showNat now) None uuid s
               else
                 (let h = created (document s);
                      d = (insertAfter k (PortalMount h) (document s))\<lparr>created := Suc h\<rparr>
                  in openInlinePanel innerText (''p-'' @ showNat now) (Some h) uuid
                       (s\<lparr>document := d\<rparr>))))"

section \<open>Selection menu and annotations\<close>

text \<open>
  What the \<open>selected\<close> event delivers: the range token, the text of the first range of the
  selection (\<open>None\<close> without a selection or a range), the position of the iframe
  (\<open>None\<close> without one), and the rectangle of the range as left, top, width, height.
\<close>

record SelectedEvent =
  ev_cfiRange :: string
  ev_text :: "string option"
  ev_iframe :: "(real \<times> real) option"
  ev_rect :: "real \<times> real \<times> real \<times> real"

text \<open>
  \<open>rendition.on('selected', ...)\<close>. The call of the parent's \<open>onSelection\<close> changes no
  state of the Reader.
\<close>

definition onSelected :: "nat \<Rightarrow> SelectedEvent \<Rightarrow> Reader \<Rightarrow> Reader" where
  "onSelected now ev s =
     (let s0 = s\<lparr>selectionTimeRef := now\<rparr>
      in case ev_text ev of
           None \<Rightarrow> s0
         | Some txt \<Rightarrow>
             if trim txt = [] then s0
             else
               (case ev_iframe ev of
                  None \<Rightarrow> s0
                | Some (iframeLeft, iframeTop) \<Rightarrow>
                    (case ev_rect ev of
                       (rectLeft, rectTop, rectWidth, rectHeight) \<Rightarrow>
                         if rectWidth = 0 \<and> rectHeight = 0 then s0
                         else s0\<lparr>menu := \<lparr>visible = True,
                                          menu_x = iframeLeft + rectLeft + rectWidth / 2,
                                          menu_y = iframeTop + rectTop - 10,
                                          menu_cfiRange = Some (ev_cfiRange ev),
                                          menu_text = txt\<rparr>\<rparr>)))"

text \<open>\<open>rendition.on('markClicked', ...)\<close>; \<open>dataCfi\<close> is \<open>data.cfiRange\<close> when there is one.\<close>

definition onMarkClicked :: "string \<Rightarrow> string option \<Rightarrow> Reader \<Rightarrow> Reader" where
  "onMarkClicked cfi dataCfi s =
     (case find (\<lambda>a. cfiRange a = cfi \<or> dataCfi = Some (cfiRange a)) (annotations s) of
        None \<Rightarrow> s
      | Some annotation \<Rightarrow>
          s\<lparr>editingAnnotation := Some annotation, pendingAnnotation := None,
            menu := (menu s)\<lparr>visible := False\<rparr>, isAnnotationModalOpen := True\<rparr>)"

text \<open>\<open>handleOpenAnnotationModal()\<close>\<close>

definition handleOpenAnnotationModal :: "Reader \<Rightarrow> Reader" where
  "handleOpenAnnotationModal s =
     (if truthy (menu_cfiRange (menu s)) \<and> menu_text (menu s) \<noteq> []
      then s\<lparr>pendingAnnotation := Some \<lparr>p_cfi = the (menu_cfiRange (menu s)),
                                         p_text = menu_text (menu s)\<rparr>,
             editingAnnotation := None, isAnnotationModalOpen := True,
             menu := (menu s)\<lparr>visible := False\<rparr>\<rparr>
      else s)"

text \<open>The data the annotation modal hands to \<open>onSave\<close>.\<close>

record AnnotationForm =
  f_note :: string
  f_color :: string
  f_style :: AnnotationStyle
  f_tags :: "string list"

text \<open>
  \<open>handleSaveAnnotation(data)\<close>, with \<open>new Date().toISOString()\<close> as \<open>isoNow\<close> and
  \<open>Date.now()\<close> as \<open>now\<close>. \<open>clearSelection()\<close> changes no state of the model.
\<close>

definition handleSaveAnnotation :: "AnnotationForm \<Rightarrow> string \<Rightarrow> nat \<Rightarrow> Reader \<Rightarrow> Reader" where
  "handleSaveAnnotation data isoNow now s =
     (case renditionRef s of
        None \<Rightarrow> s
      | Some registry \<Rightarrow>
          (let cfi = (case editingAnnotation s of
                        Some e \<Rightarrow> Some (cfiRange e)
                      | None \<Rightarrow> map_option p_cfi (pendingAnnotation s));
               textContext = (case editingAnnotation s of
                                Some e \<Rightarrow> Some (a_text e)
                              | None \<Rightarrow> map_option p_text (pendingAnnotation s))
           in if \<not> truthy cfi \<or> \<not> truthy textContext then s
              else
                (let registry1 = (if editingAnnotation s \<noteq> None
                                  then annotations_remove (the cfi) ''underline''
                                         (annotations_remove (the cfi) ''highlight'' registry)
                                  else registry);
                     prefix = (if f_style data = highlight then ''hl'' else ''ul'');
                     className = prefix @ ''-'' @ f_color data;
                     registry2 = annotations_add (styleName (f_style data)) (the cfi) className
                                   registry1;
                     newAnnotation = \<lparr>cfiRange = the cfi, a_text = the textContext,
                                        a_note = f_note data, color = f_color data,
                                        style = f_style data, tags = f_tags data,
                                        date = isoNow\<rparr>;
                     updated = (if editingAnnotation s \<noteq> None
                                then map (\<lambda>a. if cfiRange a = the cfi then newAnnotation else a)
                                       (annotations s)
                                else annotations s @ [newAnnotation]);
                     storage = (case book s of
                                  None \<Rightarrow> localStorage s
                                | Some b \<Rightarrow> saveUserData (book_id b)
                                             (noFields\<lparr>d_annotations := Some updated\<rparr>) now
                                             (localStorage s))
                 in s\<lparr>renditionRef := Some registry2, annotations := updated,
                       localStorage := storage, pendingAnnotation := None,
                       editingAnnotation := None\<rparr>)))"

text \<open>The annotations of the open book at one anchor.\<close>

definition annotationsAt :: "string \<Rightarrow> Reader \<Rightarrow> Annotation list" where
  "annotationsAt anchor s = filter (\<lambda>a. cfiRange a = anchor) (annotations s)"

text \<open>
  The create flow as the user runs it: a text selection raises the menu, the menu opens
  the annotation modal, the modal saves.
\<close>

definition createFlow :: "SelectedEvent \<Rightarrow> AnnotationForm \<Rightarrow> string \<Rightarrow> nat \<Rightarrow> Reader \<Rightarrow> Reader" where
  "createFlow ev data isoNow now s =
     handleSaveAnnotation data isoNow now (handleOpenAnnotationModal (onSelected now ev s))"


text \<open>
  \<open>rendition.on('relocated', ...)\<close> for the position \<open>location.start.cfi\<close>. \<open>percentage\<close> is
  \<open>locations.percentageFromCfi\<close> of it when \<open>locations.length() > 0\<close>, and \<open>None\<close>
  before the locations are generated. The handler is registered only while a book is open.
\<close>

definition onRelocated :: "string \<Rightarrow> real option \<Rightarrow> nat \<Rightarrow> Reader \<Rightarrow> Reader" where
  "onRelocated startCfi percentage now s =
     (let s1 = s\<lparr>menu := (menu s)\<lparr>visible := False\<rparr>, currentCfi := startCfi\<rparr>
      in case book s of
           None \<Rightarrow> s1
         | Some b \<Rightarrow>
             (case percentage of
                Some pct \<Rightarrow>
                  s1\<lparr>progress := pct,
                     localStorage := saveUserData (book_id b)
                       (noFields\<lparr>d_lastCfi := Some startCfi, d_progress := Some pct\<rparr>) now
                       (localStorage s)\<rparr>
              | None \<Rightarrow>
                  s1\<lparr>localStorage := saveUserData (book_id b)
                       (noFields\<lparr>d_lastCfi := Some startCfi\<rparr>) now (localStorage s)\<rparr>))"

text \<open>\<open>rendition.on('resized', ...)\<close>\<close>

definition onResized :: "Reader \<Rightarrow> Reader" where
  "onResized s = s\<lparr>menu := (menu s)\<lparr>visible := False\<rparr>\<rparr>"

section \<open>Batch search over the spine\<close>

text \<open>
  The \<open>while\<close> loop of \<open>performSearch\<close> over one chapter text: \<open>index\<close> is the position
  of the occurrence at hand, or \<open>-1\<close>. The loop ends at the latest when the result list
  is longer than 500, which bounds the number of its iterations.
\<close>

function scanText ::
  "string \<Rightarrow> string \<Rightarrow> string \<Rightarrow> string \<Rightarrow> string \<Rightarrow> string \<Rightarrow> int \<Rightarrow> SearchResult list
     \<Rightarrow> SearchResult list" where
  "scanText cleanText lowerText lowerQuery query itemHref label index results =
     (if index = - 1 then results
      else
        (let start = max 0 (index - 30);
             stop = min (int (length cleanText)) (index + int (length query) + 30);
             excerpt = substring cleanText start stop;
             results1 = results @ [\<lparr>r_cfi = itemHref, r_excerpt = excerpt, r_label = label,
                                     r_context = excerpt\<rparr>];
             startIndex = index + int (length query);
             index1 = indexOf lowerText lowerQuery startIndex
         in if length results1 > 500 then results1
            else scanText cleanText lowerText lowerQuery query itemHref label index1 results1))"
  by pat_completeness auto
termination
  by (relation "measure (\<lambda>(cleanText, lowerText, lowerQuery, query, itemHref, label, index,
                          results). 501 - length results)") auto

declare scanText.simps [simp del]

text \<open>
  The body of the \<open>for\<close> loop for spine position \<open>i\<close>. An item without \<open>href\<close> is skipped
  by \<open>continue\<close>; a load that throws is caught and the chapter skipped.
\<close>

definition searchUnit :: "EpubBook \<Rightarrow> string \<Rightarrow> nat \<Rightarrow> SearchResult list \<Rightarrow> SearchResult list" where
  "searchUnit bk query i results =
     (case spine_get bk i of
        None \<Rightarrow> results
      | Some item \<Rightarrow>
          if \<not> truthy (href item) then results
          else
            (case loaded item of
               LoadFails \<Rightarrow> results
             | NoBody \<Rightarrow> results
             | Body bodyText \<Rightarrow>
                 (let cleanText = collapseSpaces bodyText;
                      lowerText = toLowerCase cleanText;
                      lowerQuery = toLowerCase query;
                      label = (if truthy (idref item) then the (idref item)
                               else ''Chapter '' @ showNat (i + 1))
                  in scanText cleanText lowerText lowerQuery query (the (href item)) label
                       (indexOf lowerText lowerQuery 0) results)))"

text \<open>\<open>for (let i = 0; i < spineLength; i++)\<close>\<close>

function forSpine :: "EpubBook \<Rightarrow> string \<Rightarrow> nat \<Rightarrow> nat \<Rightarrow> SearchResult list \<Rightarrow> SearchResult list" where
  "forSpine bk query spineLength i results =
     (if i < spineLength
      then forSpine bk query spineLength (Suc i) (searchUnit bk query i results)
      else results)"
  by pat_completeness auto
termination
  by (relation "measure (\<lambda>(bk, query, spineLength, i, results). spineLength - i)") auto

declare forSpine.simps [simp del]

text \<open>\<open>performSearch(query)\<close>; the first argument is \<open>bookRef.current\<close>.\<close>

definition performSearch :: "EpubBook option \<Rightarrow> string \<Rightarrow> SearchResult list" where
  "performSearch bookRefCurrent query =
     (case bookRefCurrent of
        None \<Rightarrow> []
      | Some bk \<Rightarrow>
          if query = [] \<or> length query < 2 then []
          else forSpine bk query (length (spineItems bk)) 0 [])"

section \<open>Interactive search\<close>

text \<open>
  \<open>updateActiveSearchHighlight(index, matches)\<close>. The handler reads \<open>currentMatchIndex\<close>
  as it was when the component last rendered. The optional chain
  \<open>renditionRef.current?.\<close> skips the whole call, arguments included, without a rendition;
  with one, \<open>match.cfi\<close> throws when \<open>matches[index]\<close> is \<open>undefined\<close>.
\<close>

definition updateActiveSearchHighlight :: "int \<Rightarrow> SearchMatch list \<Rightarrow> Reader \<Rightarrow> Outcome" where
  "updateActiveSearchHighlight index matches s =
     (let demoted =
            (case arrayAt matches (currentMatchIndex s) of
               None \<Rightarrow> renditionRef s
             | Some previous \<Rightarrow>
                 if currentMatchIndex s \<noteq> - 1
                 then map_option
                        (\<lambda>r. annotations_add ''highlight'' (m_cfi previous) ''search-result''
                               (annotations_remove (m_cfi previous) ''highlight'' r))
                        (renditionRef s)
                 else renditionRef s)
      in case demoted of
           None \<Rightarrow> Returned (s\<lparr>currentMatchIndex := index\<rparr>)
         | Some registry \<Rightarrow>
             (case arrayAt matches index of
                None \<Rightarrow> Threw TypeError (s\<lparr>currentMatchIndex := index,
                                           renditionRef := Some registry\<rparr>)
              | Some match \<Rightarrow>
                  Returned
                    (s\<lparr>currentMatchIndex := index,
                       renditionRef :=
                         Some (annotations_add ''highlight'' (m_cfi match)
                                 ''search-result-active''
                                 (annotations_remove (m_cfi match) ''highlight'' registry)),
                       displayed := Some (m_cfi match)\<rparr>)))"

text \<open>\<open>nextSearchMatch(indexOverride?, resultsOverride?)\<close>\<close>

definition nextSearchMatch ::
  "int option \<Rightarrow> SearchMatch list option \<Rightarrow> Reader \<Rightarrow> Outcome" where
  "nextSearchMatch indexOverride resultsOverride s =
     (let matches = (case resultsOverride of Some r \<Rightarrow> r | None \<Rightarrow> searchMatches s)
      in if length matches = 0 then Returned s
         else
           (let nextIndex = (case indexOverride of
                               Some i \<Rightarrow> i
                             | None \<Rightarrow> currentMatchIndex s + 1)
            in updateActiveSearchHighlight
                 (if nextIndex \<ge> int (length matches) then 0 else nextIndex) matches s))"

text \<open>\<open>prevSearchMatch()\<close>\<close>

definition prevSearchMatch :: "Reader \<Rightarrow> Outcome" where
  "prevSearchMatch s =
     (if length (searchMatches s) = 0 then Returned s
      else
        (let nextIndex = currentMatchIndex s - 1
         in updateActiveSearchHighlight
              (if nextIndex < 0 then int (length (searchMatches s)) - 1 else nextIndex)
              (searchMatches s) s))"

text \<open>
  A handler run \<open>n\<close> times in a row, each run on the state the run before left; the runs
  stop at the first that throws.
\<close>

fun repeatHandler :: "nat \<Rightarrow> (Reader \<Rightarrow> Outcome) \<Rightarrow> Reader \<Rightarrow> Outcome" where
  "repeatHandler 0 handler s = Returned s"
| "repeatHandler (Suc n) handler s =
     (case handler s of Threw e s1 \<Rightarrow> Threw e s1 | Returned s1 \<Rightarrow> repeatHandler n handler s1)"

text \<open>\<open>s.includes(part)\<close>\<close>

definition str_includes :: "string \<Rightarrow> string \<Rightarrow> bool" where
  "str_includes s part = (indexOf s part 0 \<noteq> - 1)"

text \<open>
  The loop at the head of \<open>handleInteractiveSearch\<close> over the entries of
  \<open>_annotations\<close>: an entry is removed when its \<open>type\<close> is \<open>'search-result'\<close> or
  \<open>'search-result-active'\<close>.
\<close>

definition clearByType :: "Overlay list \<Rightarrow> Overlay list" where
  "clearByType registry =
     fold (\<lambda>note r. if o_type note = ''search-result'' \<or> o_type note = ''search-result-active''
                     then annotations_remove (o_cfiRange note) (o_type note) r else r)
          registry registry"

text \<open>
  The loop of \<open>closeSearchBar\<close> over the same entries: an entry is removed, as a
  highlight, when its \<open>className\<close> includes \<open>'search-result'\<close>.
\<close>

definition clearByClassName :: "Overlay list \<Rightarrow> Overlay list" where
  "clearByClassName registry =
     fold (\<lambda>note r. if o_className note \<noteq> [] \<and> str_includes (o_className note) ''search-result''
                     then annotations_remove (o_cfiRange note) ''highlight'' r else r)
          registry registry"

text \<open>
  The matches of a query over the whole spine, as \<open>handleInteractiveSearch\<close> gathers them:
  \<open>itemFind\<close> is the engine's search within one spine item; an item whose load fails
  contributes no match.
\<close>

definition flatResults :: "(SpineItem \<Rightarrow> string \<Rightarrow> SearchMatch list) \<Rightarrow> EpubBook \<Rightarrow> string
                             \<Rightarrow> SearchMatch list" where
  "flatResults itemFind bk query =
     concat (map (\<lambda>item. case loaded item of
                            LoadFails \<Rightarrow> []
                          | NoBody \<Rightarrow> itemFind item query
                          | Body b \<Rightarrow> itemFind item query)
               (spineItems bk))"

text \<open>
  \<open>handleInteractiveSearch()\<close>. An exception in the body of the \<open>try\<close> block (without a
  book, or out of \<open>nextSearchMatch\<close>) is caught and logged; the \<open>finally\<close> block resets
  \<open>isSearching\<close>, which the handler had set at its start. The value \<open>-1\<close> that the handler
  gives \<open>currentMatchIndex\<close> at its start is not what its own call of
  \<open>nextSearchMatch(0, flatResults)\<close> reads: that call still sees the value of the last
  render.
\<close>

definition handleInteractiveSearch ::
  "(SpineItem \<Rightarrow> string \<Rightarrow> SearchMatch list) \<Rightarrow> Reader \<Rightarrow> Reader" where
  "handleInteractiveSearch itemFind s =
     (if trim (searchQuery s) = [] then s
      else
        (let cleared = map_option clearByType (renditionRef s)
         in case bookRef s of
              None \<Rightarrow> s\<lparr>currentMatchIndex := - 1, renditionRef := cleared, isSearching := False\<rparr>
            | Some bk \<Rightarrow>
                (let found = flatResults itemFind bk (searchQuery s)
                 in if length found > 0
                    then
                      (let marked = map_option
                                      (fold (\<lambda>res r. annotations_add ''highlight'' (m_cfi res)
                                                        ''search-result'' r) found)
                                      cleared
                       in (stateOf (nextSearchMatch (Some 0) (Some found)
                                      (s\<lparr>renditionRef := marked, searchMatches := found\<rparr>)))
                            \<lparr>isSearching := False\<rparr>)
                    else s\<lparr>currentMatchIndex := - 1, renditionRef := cleared,
                           searchMatches := found, isSearching := False\<rparr>)))"

text \<open>\<open>closeSearchBar()\<close>\<close>

definition closeSearchBar :: "Reader \<Rightarrow> Reader" where
  "closeSearchBar s =
     s\<lparr>isSearchBarOpen := False, searchMatches := [], searchQuery := [],
       currentMatchIndex := - 1,
       renditionRef := map_option clearByClassName (renditionRef s)\<rparr>"

section \<open>Importing a book (App)\<close>

text \<open>
  What \<open>ePub(content)\<close> yields for an EPUB file: its metadata and cover. A field that is
  absent or empty is falsy.
\<close>

record EpubMetadata =
  meta_title :: "string option"
  meta_creator :: "string option"
  meta_coverUrl :: "string option"

text \<open>The type of a file, from its name.\<close>

definition sniffType :: "string \<Rightarrow> FileType" where
  "sniffType fileName =
     (if endsWith (toLowerCase fileName) ''.epub'' then epub_type
      else if endsWith (toLowerCase fileName) ''.txt'' then txt_type
      else if endsWith (toLowerCase fileName) ''.pdf'' then pdf_type
      else unsupported_type)"

text \<open>\<open>file.name.replace(/\.(epub|txt|pdf)$/i, '')\<close>\<close>

definition stripExtension :: "string \<Rightarrow> string" where
  "stripExtension fileName =
     (if endsWith (toLowerCase fileName) ''.epub'' then take (length fileName - 5) fileName
      else if endsWith (toLowerCase fileName) ''.txt'' \<or> endsWith (toLowerCase fileName) ''.pdf''
      then take (length fileName - 4) fileName
      else fileName)"

text \<open>\<open>`${title}-${author}`.toLowerCase().replace(/[^a-z0-9]/g, '')\<close>\<close>

definition idString :: "string \<Rightarrow> string \<Rightarrow> string" where
  "idString bookTitle bookAuthor =
     filter isLowerAlnum (toLowerCase (bookTitle @ ''-'' @ bookAuthor))"

text \<open>\<open>prev.some(b => b.id === id)\<close>\<close>

definition hasBook :: "string \<Rightarrow> Book list \<Rightarrow> bool" where
  "hasBook ident books = (find (\<lambda>b. book_id b = ident) books \<noteq> None)"

text \<open>
  The local variables \<open>title\<close>, \<open>author\<close>, \<open>coverUrl\<close> and \<open>id\<close> of \<open>handleAddBook\<close>.
  \<open>metadata\<close> is what the EPUB parser delivers (\<open>None\<close> when it throws before the
  metadata is read); it is consulted for an EPUB file only. \<open>uuid\<close> is the value
  \<open>uuidv4()\<close> would give.
\<close>

definition importTitle :: "string \<Rightarrow> EpubMetadata option \<Rightarrow> string" where
  "importTitle fileName metadata =
     (case (if sniffType fileName = epub_type then metadata else None) of
        None \<Rightarrow> stripExtension fileName
      | Some m \<Rightarrow> if truthy (meta_title m) then the (meta_title m)
                 else stripExtension fileName)"

definition importAuthor :: "string \<Rightarrow> EpubMetadata option \<Rightarrow> string" where
  "importAuthor fileName metadata =
     (case (if sniffType fileName = epub_type then metadata else None) of
        None \<Rightarrow> ''Unknown Author''
      | Some m \<Rightarrow> if truthy (meta_creator m) then the (meta_creator m)
                 else ''Unknown Author'')"

definition importCover :: "string \<Rightarrow> EpubMetadata option \<Rightarrow> string option" where
  "importCover fileName metadata =
     (case (if sniffType fileName = epub_type then metadata else None) of
        None \<Rightarrow> None
      | Some m \<Rightarrow> if truthy (meta_coverUrl m) then meta_coverUrl m else None)"

text \<open>\<open>idString || uuidv4()\<close>\<close>

definition importId :: "string \<Rightarrow> EpubMetadata option \<Rightarrow> string \<Rightarrow> string" where
  "importId fileName metadata uuid =
     (if idString (importTitle fileName metadata) (importAuthor fileName metadata) \<noteq> []
      then idString (importTitle fileName metadata) (importAuthor fileName metadata)
      else uuid)"

text \<open>
  \<open>handleAddBook(file)\<close> up to the update of \<open>books\<close>: \<open>result\<close> is what the
  \<open>FileReader\<close> delivers (\<open>None\<close> when it has no result; an empty text is falsy as well).
  An unsupported file raises an alert and leaves the library as it is.
\<close>

definition handleAddBook ::
  "string \<Rightarrow> string option \<Rightarrow> EpubMetadata option \<Rightarrow> string \<Rightarrow> Book list \<Rightarrow> Book list" where
  "handleAddBook fileName result metadata uuid books =
     (if sniffType fileName = unsupported_type then books
      else
        (case result of
           None \<Rightarrow> books
         | Some fileContent \<Rightarrow>
             if sniffType fileName = txt_type \<and> fileContent = [] then books
             else
               (let ident = importId fileName metadata uuid;
                    newBook = \<lparr>book_id = ident, title = importTitle fileName metadata,
                                author = importAuthor fileName metadata,
                                content = fileContent, fileType = sniffType fileName,
                                coverUrl = importCover fileName metadata,
                                textContent = (if sniffType fileName = txt_type
                                               then Some fileContent else None),
                                isContextEnabled = (sniffType fileName = txt_type)\<rparr>
                in if hasBook ident books then books else books @ [newBook])))"

section \<open>Example states\<close>

definition exampleStore :: "string \<rightharpoonup> BookUserData" where
  "exampleStore =
     [''alphabob'' \<mapsto> noFields\<lparr>d_id := Some ''alphabob'', d_lastCfi := Some ''epubcfi(/6/4)'',
                                  d_bookmarks := Some [], d_lastRead := Some 5\<rparr>,
      ''other'' \<mapsto> noFields\<lparr>d_id := Some ''other'', d_lastRead := Some 3\<rparr>]"

definition exampleStorage :: LocalStorage where
  "exampleStorage = \<lparr>dataItem = Some (Json exampleStore), quotaExceeded = False\<rparr>"

text \<open>The same storage with the quota used up, and a storage whose item does not parse.\<close>

definition fullStorage :: LocalStorage where
  "fullStorage = \<lparr>dataItem = Some (Json exampleStore), quotaExceeded = True\<rparr>"

definition garbageStorage :: LocalStorage where
  "garbageStorage = \<lparr>dataItem = Some Garbage, quotaExceeded = False\<rparr>"

text \<open>A partial update that moves the reading position.\<close>

definition positionUpdate :: BookUserData where
  "positionUpdate = noFields\<lparr>d_lastCfi := Some ''epubcfi(/6/8)'', d_progress := Some (1/2)\<rparr>"

text \<open>A book of one chapter, every character of which matches the query \<open>a\<close>.\<close>

definition oneChapter :: EpubBook where
  "oneChapter = \<lparr>spineItems = [\<lparr>href = Some ''ch1.xhtml'', idref = Some ''ch1'',
                                  loaded = Body ''aaaa''\<rparr>]\<rparr>"

text \<open>The Reader as it is mounted for an EPUB, before any event.\<close>

definition initialMenu :: SelectionMenu where
  "initialMenu = \<lparr>visible = False, menu_x = 0, menu_y = 0, menu_cfiRange = None, menu_text = []\<rparr>"

definition alphaBook :: Book where
  "alphaBook = \<lparr>book_id = ''alphabob'', title = ''Alpha'', author = ''Bob'', content = [],
                 fileType = epub_type, coverUrl = None, textContent = None,
                 isContextEnabled = False\<rparr>"

definition initialReader :: Reader where
  "initialReader =
     \<lparr>book = Some alphaBook, aiDisplayMode = inline, renditionRef = Some [],
      bookRef = Some oneChapter, selectionTimeRef = 0, menu = initialMenu, currentCfi = [],
      progress = 0, bookmarks = [], annotations = [], inlineNotes = [],
      activePopupNote = None, isAnnotationModalOpen = False, pendingAnnotation = None,
      editingAnnotation = None, isSearchBarOpen = False, searchQuery = [],
      searchMatches = [], currentMatchIndex = - 1, isSearching = False, displayed = None,
      document = \<lparr>nodes = [], created = 0\<rparr>,
      localStorage = \<lparr>dataItem = None, quotaExceeded = False\<rparr>\<rparr>"

text \<open>Two matches of an interactive search.\<close>

definition twoMatches :: "SearchMatch list" where
  "twoMatches = [\<lparr>m_cfi = ''epubcfi(/6/4!/4/2,/1:0,/1:2)'', m_excerpt = ''ab''\<rparr>,
                 \<lparr>m_cfi = ''epubcfi(/6/4!/4/6,/1:3,/1:5)'', m_excerpt = ''ab''\<rparr>]"

text \<open>
  An engine search that finds the two matches above for \<open>ab\<close>, one match for \<open>cd\<close>, and
  nothing else.
\<close>

definition cdMatch :: SearchMatch where
  "cdMatch = \<lparr>m_cfi = ''epubcfi(/6/4!/4/10,/1:0,/1:2)'', m_excerpt = ''cd''\<rparr>"

definition exampleFind :: "SpineItem \<Rightarrow> string \<Rightarrow> SearchMatch list" where
  "exampleFind item query =
     (if query = ''ab'' then twoMatches else if query = ''cd'' then [cdMatch] else [])"

text \<open>The search bar is opened, \<open>ab\<close> is searched, then the query is changed to \<open>cd\<close>.\<close>

definition afterFirstSearch :: Reader where
  "afterFirstSearch =
     handleInteractiveSearch exampleFind
       (initialReader\<lparr>isSearchBarOpen := True, searchQuery := ''ab''\<rparr>)"

definition afterSecondSearch :: Reader where
  "afterSecondSearch =
     handleInteractiveSearch exampleFind (afterFirstSearch\<lparr>searchQuery := ''cd''\<rparr>)"

text \<open>A book of \<open>n\<close> chapters, each with the text \<open>ab\<close>; one of 600 chapters.\<close>

definition abChapter :: SpineItem where
  "abChapter = \<lparr>href = Some ''ch.xhtml'', idref = Some ''ch'', loaded = Body ''ab''\<rparr>"

definition chaptersAb :: "nat \<Rightarrow> EpubBook" where
  "chaptersAb n = \<lparr>spineItems = replicate n abChapter\<rparr>"

definition manyChapters :: EpubBook where
  "manyChapters = chaptersAb 600"

text \<open>A plain-text book of two paragraphs, open in the Reader with inline AI notes.\<close>

definition txtBook :: Book where
  "txtBook = \<lparr>book_id = ''notesunknownauthor'', title = ''notes'', author = ''Unknown Author'',
               content = ''Hello'' @ [CHR 0x0A] @ ''World'', fileType = txt_type,
               coverUrl = None, textContent = Some (''Hello'' @ [CHR 0x0A] @ ''World''),
               isContextEnabled = True\<rparr>"

definition txtReader :: Reader where
  "txtReader = initialReader\<lparr>book := Some txtBook, renditionRef := None, bookRef := None\<rparr>"

text \<open>A selection of the word \<open>Hello\<close>, and two fillings of the annotation modal.\<close>

definition selectionHello :: SelectedEvent where
  "selectionHello = \<lparr>ev_cfiRange = ''epubcfi(/6/4!/4/2,/1:0,/1:5)'', ev_text = Some ''Hello'',
                      ev_iframe = Some (0, 0), ev_rect = (10, 20, 50, 12)\<rparr>"

definition yellowHighlight :: AnnotationForm where
  "yellowHighlight = \<lparr>f_note = [], f_color = ''yellow'', f_style = highlight, f_tags = []\<rparr>"

definition blueUnderline :: AnnotationForm where
  "blueUnderline = \<lparr>f_note = ''again'', f_color = ''blue'', f_style = underline, f_tags = []\<rparr>"

definition annotatedOnce :: Reader where
  "annotatedOnce = createFlow selectionHello yellowHighlight ''2024-05-01T10:00:00.000Z'' 1000
                     initialReader"

text \<open>
  The modal open on the selection; then a second annotation, on the word \<open>World\<close>, and
  the modal open on the first annotation, which stands before the second in the list.
\<close>

definition pendingHello :: Reader where
  "pendingHello = handleOpenAnnotationModal (onSelected 1000 selectionHello initialReader)"

definition helloAnnotation :: Annotation where
  "helloAnnotation =
     \<lparr>cfiRange = ''epubcfi(/6/4!/4/2,/1:0,/1:5)'', a_text = ''Hello'', a_note = [],
      color = ''yellow'', style = highlight, tags = [], date = ''2024-05-01T10:00:00.000Z''\<rparr>"

definition selectionWorld :: SelectedEvent where
  "selectionWorld = \<lparr>ev_cfiRange = ''epubcfi(/6/4!/4/2,/1:6,/1:11)'', ev_text = Some ''World'',
                      ev_iframe = Some (0, 0), ev_rect = (70, 20, 50, 12)\<rparr>"

definition worldAnnotation :: Annotation where
  "worldAnnotation =
     \<lparr>cfiRange = ''epubcfi(/6/4!/4/2,/1:6,/1:11)'', a_text = ''World'', a_note = [],
      color = ''yellow'', style = highlight, tags = [], date = ''2024-05-01T10:02:00.000Z''\<rparr>"

definition annotatedBoth :: Reader where
  "annotatedBoth = createFlow selectionWorld yellowHighlight ''2024-05-01T10:02:00.000Z'' 1500
                     annotatedOnce"

definition editingHello :: Reader where
  "editingHello = onMarkClicked ''epubcfi(/6/4!/4/2,/1:0,/1:5)'' None annotatedBoth"

definition helloEdited :: Annotation where
  "helloEdited =
     \<lparr>cfiRange = ''epubcfi(/6/4!/4/2,/1:0,/1:5)'', a_text = ''Hello'', a_note = ''again'',
      color = ''blue'', style = underline, tags = [], date = ''2024-05-01T10:05:00.000Z''\<rparr>"

text \<open>Metadata of an EPUB titled \<open>Alpha\<close> by \<open>Bob\<close>, and of one without a letter or digit.\<close>

definition alphaMetadata :: EpubMetadata where
  "alphaMetadata = \<lparr>meta_title = Some ''Alpha'', meta_creator = Some ''Bob'',
                     meta_coverUrl = None\<rparr>"

definition starMetadata :: EpubMetadata where
  "starMetadata = \<lparr>meta_title = Some ''***'', meta_creator = Some ''---'',
                    meta_coverUrl = None\<rparr>"



section \<open>The user data store\<close>

lemma property_assign_same:
  assumes "key \<noteq> ''__proto__''"
  shows "property (assign store key bundle) key = Some bundle"
  using assms by (simp add: property_def assign_def)

lemma property_assign_other:
  assumes "other \<noteq> key"
  shows "property (assign store key bundle) other = property store other"
  using assms by (simp add: property_def assign_def)

lemma saveUserData_ok:
  assumes "parseData ls = Inr store" and "\<not> quotaExceeded ls"
  shows "saveUserData bookId data t ls =
           ls\<lparr>dataItem := Some (Json (assign store bookId
                 ((spread (stored store bookId) data)\<lparr>d_id := Some bookId, d_lastRead := Some t\<rparr>)))\<rparr>"
  using assms by (simp add: saveUserData_def setData_def Let_def)

lemma saveUserData_throws:
  assumes "parseData ls = Inl e"
  shows "saveUserData bookId data t ls = ls"
  using assms by (simp add: saveUserData_def)

lemma saveUserData_quota:
  assumes "quotaExceeded ls"
  shows "saveUserData bookId data t ls = ls"
  using assms by (simp add: saveUserData_def setData_def Let_def split: sum.splits)

lemma loadUserData_saveUserData_same:
  assumes "parseData ls = Inr store" and "\<not> quotaExceeded ls" and "bookId \<noteq> ''__proto__''"
  shows "loadUserData bookId (saveUserData bookId data now ls) =
           Some ((spread (stored store bookId) data)\<lparr>d_id := Some bookId, d_lastRead := Some now\<rparr>)"
  unfolding saveUserData_ok [OF assms(1,2)]
  by (simp add: loadUserData_def parseData_def property_assign_same [OF assms(3)])

lemma loadUserData_saveUserData_other:
  assumes "other \<noteq> bookId"
  shows "loadUserData other (saveUserData bookId data now ls) = loadUserData other ls"
proof (cases "parseData ls")
  case (Inl e)
  then show ?thesis by (simp add: saveUserData_throws [OF Inl])
next
  case (Inr store)
  show ?thesis
  proof (cases "quotaExceeded ls")
    case True
    then show ?thesis by (simp add: saveUserData_quota)
  next
    case False
    show ?thesis
      unfolding saveUserData_ok [OF Inr False]
      using Inr by (simp add: loadUserData_def parseData_def property_assign_other [OF assms])
  qed
qed

lemma stored_field:
  assumes "parseData ls = Inr store"
  shows "stored store bookId = (case loadUserData bookId ls of None \<Rightarrow> noFields | Some b \<Rightarrow> b)"
  using assms by (simp add: loadUserData_def stored_def)

text \<open>
  Claim C7, as amended. A save whose \<open>try\<close> block runs to its end (the stored item parses
  and \<open>setItem\<close> does not throw), for a book id other than \<open>__proto__\<close>, is a read-modify-write
  of the bundle read from storage at that moment: in the saved bundle each field named
  in the partial update has the value of the update, also where the stored bundle had
  another value; each field not named has the value of the stored bundle, or is absent
  for a book without one; \<open>lastRead\<close> is the current time and \<open>id\<close> the book id. Whatever
  the save does, the bundle of every other book is the one that was stored before. A save
  whose \<open>try\<close> block throws leaves storage as it was.
\<close>

theorem saveUserData_read_modify_write:
  "(parseData ls = Inr store \<and> \<not> quotaExceeded ls \<and> bookId \<noteq> ''__proto__'' \<longrightarrow>
      (\<exists>b. loadUserData bookId (saveUserData bookId data now ls) = Some b
         \<and> d_lastRead b = Some now
         \<and> d_id b = Some bookId
         \<and> (\<forall>v. d_lastCfi data = Some v \<longrightarrow> d_lastCfi b = Some v)
         \<and> (\<forall>v. d_progress data = Some v \<longrightarrow> d_progress b = Some v)
         \<and> (\<forall>v. d_bookmarks data = Some v \<longrightarrow> d_bookmarks b = Some v)
         \<and> (\<forall>v. d_annotations data = Some v \<longrightarrow> d_annotations b = Some v)
         \<and> (\<forall>old. loadUserData bookId ls = Some old \<longrightarrow>
               (d_lastCfi data = None \<longrightarrow> d_lastCfi b = d_lastCfi old)
             \<and> (d_progress data = None \<longrightarrow> d_progress b = d_progress old)
             \<and> (d_bookmarks data = None \<longrightarrow> d_bookmarks b = d_bookmarks old)
             \<and> (d_annotations data = None \<longrightarrow> d_annotations b = d_annotations old))
         \<and> (loadUserData bookId ls = None \<longrightarrow>
               (d_lastCfi data = None \<longrightarrow> d_lastCfi b = None)
             \<and> (d_progress data = None \<longrightarrow> d_progress b = None)
             \<and> (d_bookmarks data = None \<longrightarrow> d_bookmarks b = None)
             \<and> (d_annotations data = None \<longrightarrow> d_annotations b = None))))
   \<and> (\<forall>other. other \<noteq> bookId \<longrightarrow>
         loadUserData other (saveUserData bookId data now ls) = loadUserData other ls)
   \<and> ((\<exists>e. parseData ls = Inl e) \<or> quotaExceeded ls \<longrightarrow>
         saveUserData bookId data now ls = ls)"
proof (intro conjI impI allI)
  assume h: "parseData ls = Inr store \<and> \<not> quotaExceeded ls \<and> bookId \<noteq> ''__proto__''"
  let ?b = "(spread (stored store bookId) data)\<lparr>d_id := Some bookId, d_lastRead := Some now\<rparr>"
  have l: "loadUserData bookId (saveUserData bookId data now ls) = Some ?b"
    using h loadUserData_saveUserData_same by simp
  have st: "stored store bookId = (case loadUserData bookId ls of None \<Rightarrow> noFields | Some b \<Rightarrow> b)"
    using h stored_field by simp
  show "\<exists>b. loadUserData bookId (saveUserData bookId data now ls) = Some b
         \<and> d_lastRead b = Some now
         \<and> d_id b = Some bookId
         \<and> (\<forall>v. d_lastCfi data = Some v \<longrightarrow> d_lastCfi b = Some v)
         \<and> (\<forall>v. d_progress data = Some v \<longrightarrow> d_progress b = Some v)
         \<and> (\<forall>v. d_bookmarks data = Some v \<longrightarrow> d_bookmarks b = Some v)
         \<and> (\<forall>v. d_annotations data = Some v \<longrightarrow> d_annotations b = Some v)
         \<and> (\<forall>old. loadUserData bookId ls = Some old \<longrightarrow>
               (d_lastCfi data = None \<longrightarrow> d_lastCfi b = d_lastCfi old)
             \<and> (d_progress data = None \<longrightarrow> d_progress b = d_progress old)
             \<and> (d_bookmarks data = None \<longrightarrow> d_bookmarks b = d_bookmarks old)
             \<and> (d_annotations data = None \<longrightarrow> d_annotations b = d_annotations old))
         \<and> (loadUserData bookId ls = None \<longrightarrow>
               (d_lastCfi data = None \<longrightarrow> d_lastCfi b = None)
             \<and> (d_progress data = None \<longrightarrow> d_progress b = None)
             \<and> (d_bookmarks data = None \<longrightarrow> d_bookmarks b = None)
             \<and> (d_annotations data = None \<longrightarrow> d_annotations b = None))"
    unfolding l st
    by (simp add: spread_def orElse_def noFields_def)
next
  fix other assume "other \<noteq> bookId"
  then show "loadUserData other (saveUserData bookId data now ls) = loadUserData other ls"
    by (rule loadUserData_saveUserData_other)
next
  assume "(\<exists>e. parseData ls = Inl e) \<or> quotaExceeded ls"
  then show "saveUserData bookId data now ls = ls"
    using saveUserData_throws saveUserData_quota by blast
qed


theorem saveUserData_read_modify_write_witness:
  "parseData exampleStorage = Inr exampleStore \<and> \<not> quotaExceeded exampleStorage
   \<and> ''alphabob'' \<noteq> ''__proto__''
   \<and> map_option d_lastCfi (loadUserData ''alphabob'' exampleStorage)
       = Some (Some ''epubcfi(/6/4)'')
   \<and> d_lastCfi positionUpdate = Some ''epubcfi(/6/8)'' \<and> d_bookmarks positionUpdate = None
   \<and> map_option d_lastCfi
         (loadUserData ''alphabob'' (saveUserData ''alphabob'' positionUpdate 9 exampleStorage))
       = Some (Some ''epubcfi(/6/8)'')
   \<and> map_option d_bookmarks
         (loadUserData ''alphabob'' (saveUserData ''alphabob'' positionUpdate 9 exampleStorage))
       = Some (Some [])
   \<and> map_option d_lastRead
         (loadUserData ''alphabob'' (saveUserData ''alphabob'' positionUpdate 9 exampleStorage))
       = Some (Some 9)
   \<and> loadUserData ''other'' (saveUserData ''alphabob'' positionUpdate 9 exampleStorage)
       = loadUserData ''other'' exampleStorage
   \<and> loadUserData ''newbook'' exampleStorage = None
   \<and> map_option d_bookmarks
         (loadUserData ''newbook'' (saveUserData ''newbook'' positionUpdate 9 exampleStorage))
       = Some None
   \<and> parseData garbageStorage = Inl SyntaxError
   \<and> saveUserData ''alphabob'' positionUpdate 9 garbageStorage = garbageStorage
   \<and> quotaExceeded fullStorage
   \<and> saveUserData ''alphabob'' positionUpdate 9 fullStorage = fullStorage"
proof -
  have p: "parseData exampleStorage = Inr exampleStore"
    by (simp add: parseData_def exampleStorage_def)
  have q: "\<not> quotaExceeded exampleStorage"
    by (simp add: exampleStorage_def)
  have old: "loadUserData ''alphabob'' exampleStorage =
               Some (noFields\<lparr>d_id := Some ''alphabob'', d_lastCfi := Some ''epubcfi(/6/4)'',
                               d_bookmarks := Some [], d_lastRead := Some 5\<rparr>)"
    by (simp add: loadUserData_def p property_def exampleStore_def)
  have new: "loadUserData ''newbook'' exampleStorage = None"
    by (simp add: loadUserData_def p property_def exampleStore_def objectPrototypeKeys_def)
  have u: "d_lastCfi positionUpdate = Some ''epubcfi(/6/8)''" "d_bookmarks positionUpdate = None"
    by (simp_all add: positionUpdate_def noFields_def)
  have g: "parseData garbageStorage = Inl SyntaxError"
    by (simp add: parseData_def garbageStorage_def)
  have f: "quotaExceeded fullStorage"
    by (simp add: fullStorage_def)
  show ?thesis
    using saveUserData_read_modify_write
            [of exampleStorage exampleStore "''alphabob''" positionUpdate 9]
          saveUserData_read_modify_write
            [of exampleStorage exampleStore "''newbook''" positionUpdate 9]
          saveUserData_read_modify_write [of garbageStorage _ "''alphabob''" positionUpdate 9]
          saveUserData_read_modify_write [of fullStorage _ "''alphabob''" positionUpdate 9]
          p q old new u g f
    by (auto simp: noFields_def)
qed

text \<open>
  With the quota used up the save neither merges the new position nor stamps the time;
  with an item that does not parse nothing is saved; and to the book id \<open>__proto__\<close> the
  assignment gives no own property, so what is written is the store as it was read.
\<close>

theorem save_not_written_counterexample:
  "map_option d_lastRead
     (loadUserData ''alphabob'' (saveUserData ''alphabob'' positionUpdate 9 fullStorage))
     = Some (Some 5)
   \<and> map_option d_lastCfi
     (loadUserData ''alphabob'' (saveUserData ''alphabob'' positionUpdate 9 fullStorage))
     = Some (Some ''epubcfi(/6/4)'')
   \<and> loadUserData ''alphabob'' (saveUserData ''alphabob'' positionUpdate 9 garbageStorage)
     = None
   \<and> parseData (saveUserData ''__proto__'' positionUpdate 9 exampleStorage)
     = parseData exampleStorage"
  by (simp add: saveUserData_def loadUserData_def parseData_def setData_def fullStorage_def
        garbageStorage_def exampleStorage_def exampleStore_def property_def assign_def
        noFields_def Let_def)

section \<open>The selection menu\<close>

text \<open>
  Claim C9. After a \<open>relocated\<close> event and after a \<open>resized\<close> event has been handled, the
  selection menu is hidden, whatever its state was before.
\<close>

theorem menu_hidden_after_relocated_or_resized:
  "\<not> visible (menu (onRelocated startCfi percentage now s))
   \<and> \<not> visible (menu (onResized s))"
  by (simp add: onRelocated_def onResized_def Let_def split: option.splits)

section \<open>Batch search\<close>

text \<open>
  Claim C10. Without a loaded book, and for every query shorter than two code units,
  \<open>performSearch\<close> returns the empty list, whatever the corpus holds.
\<close>

theorem performSearch_short_query_empty:
  assumes "bookRefCurrent = None \<or> length query < 2"
  shows "performSearch bookRefCurrent query = []"
  using assms by (auto simp: performSearch_def split: option.splits)

theorem performSearch_short_query_empty_witness:
  "(Some oneChapter = None \<or> length ''a'' < 2) \<and> performSearch (Some oneChapter) ''a'' = []"
  using performSearch_short_query_empty [of "Some oneChapter" "''a''"] by simp

section \<open>The cursor of the interactive search\<close>

lemma updateActiveSearchHighlight_in_range:
  assumes "0 \<le> i" and "i < int (length ms)"
  shows "\<exists>s'. updateActiveSearchHighlight i ms s = Returned s'
              \<and> currentMatchIndex s' = i \<and> searchMatches s' = searchMatches s"
  using assms
  by (auto simp: updateActiveSearchHighlight_def arrayAt_def Let_def split: option.splits)

lemma nextSearchMatch_step:
  assumes "searchMatches s \<noteq> []" and "- 1 \<le> currentMatchIndex s"
    and "currentMatchIndex s < int (length (searchMatches s))"
  shows "\<exists>s'. nextSearchMatch None None s = Returned s'
              \<and> currentMatchIndex s' = (currentMatchIndex s + 1) mod int (length (searchMatches s))
              \<and> searchMatches s' = searchMatches s"
proof -
  let ?n = "int (length (searchMatches s))"
  let ?i = "if currentMatchIndex s + 1 \<ge> ?n then 0 else currentMatchIndex s + 1"
  have n: "0 < ?n" using assms(1) by simp
  have r: "0 \<le> ?i" "?i < ?n" using assms n by auto
  have m: "?i = (currentMatchIndex s + 1) mod ?n"
  proof (cases "currentMatchIndex s + 1 \<ge> ?n")
    case True
    with assms(3) have "currentMatchIndex s + 1 = ?n" by simp
    then show ?thesis by simp
  next
    case False
    with assms(2) show ?thesis by simp
  qed
  have e: "nextSearchMatch None None s = updateActiveSearchHighlight ?i (searchMatches s) s"
    using assms(1) by (simp add: nextSearchMatch_def Let_def)
  from updateActiveSearchHighlight_in_range [OF r, of s]
  show ?thesis unfolding e m by simp
qed

lemma repeat_nextSearchMatch:
  assumes "searchMatches s \<noteq> []" and "0 \<le> currentMatchIndex s"
    and "currentMatchIndex s < int (length (searchMatches s))"
  shows "\<exists>s'. repeatHandler k (nextSearchMatch None None) s = Returned s'
              \<and> currentMatchIndex s' = (currentMatchIndex s + int k) mod int (length (searchMatches s))
              \<and> searchMatches s' = searchMatches s"
  using assms
proof (induction k arbitrary: s)
  case 0
  then show ?case by simp
next
  case (Suc k)
  let ?n = "int (length (searchMatches s))"
  from Suc.prems have n: "0 < ?n" by simp
  from nextSearchMatch_step [of s] Suc.prems
  obtain s1 where s1: "nextSearchMatch None None s = Returned s1"
      "currentMatchIndex s1 = (currentMatchIndex s + 1) mod ?n"
      "searchMatches s1 = searchMatches s"
    by auto
  have "searchMatches s1 \<noteq> []" "0 \<le> currentMatchIndex s1"
       "currentMatchIndex s1 < int (length (searchMatches s1))"
    using s1 Suc.prems n by auto
  from Suc.IH [OF this]
  obtain s2 where s2: "repeatHandler k (nextSearchMatch None None) s1 = Returned s2"
      "currentMatchIndex s2 = (currentMatchIndex s1 + int k) mod ?n"
      "searchMatches s2 = searchMatches s1"
    using s1(3) by auto
  have "(currentMatchIndex s1 + int k) mod ?n = (currentMatchIndex s + int (Suc k)) mod ?n"
  proof -
    have "((currentMatchIndex s + 1) mod ?n + int k) mod ?n = (currentMatchIndex s + 1 + int k) mod ?n"
      by (rule mod_add_left_eq)
    then show ?thesis unfolding s1(2) by (simp add: add.assoc)
  qed
  with s1 s2 show ?case by simp
qed


lemma prevSearchMatch_from_first:
  assumes "searchMatches s \<noteq> []" and "currentMatchIndex s = 0"
  shows "\<exists>s'. prevSearchMatch s = Returned s'
              \<and> currentMatchIndex s' = int (length (searchMatches s)) - 1"
proof -
  let ?n = "int (length (searchMatches s))"
  have n: "0 < ?n" using assms(1) by simp
  have e: "prevSearchMatch s = updateActiveSearchHighlight (?n - 1) (searchMatches s) s"
    using assms by (simp add: prevSearchMatch_def Let_def)
  have r: "0 \<le> ?n - 1" "?n - 1 < ?n" using n by auto
  from updateActiveSearchHighlight_in_range [OF r, of s]
  show ?thesis unfolding e by auto
qed

text \<open>A search that finds matches ends with the cursor on the first of them.\<close>

lemma handleInteractiveSearch_selects_first:
  assumes "trim (searchQuery s) \<noteq> []" and "bookRef s = Some bk"
    and "flatResults itemFind bk (searchQuery s) \<noteq> []"
  shows "currentMatchIndex (handleInteractiveSearch itemFind s) = 0
         \<and> searchMatches (handleInteractiveSearch itemFind s)
             = flatResults itemFind bk (searchQuery s)"
proof -
  let ?found = "flatResults itemFind bk (searchQuery s)"
  have z: "arrayAt ?found 0 \<noteq> None"
    using assms(3) by (simp add: arrayAt_def)
  have "currentMatchIndex (stateOf (updateActiveSearchHighlight 0 ?found s1)) = 0
        \<and> searchMatches (stateOf (updateActiveSearchHighlight 0 ?found s1)) = searchMatches s1"
    for s1
    using z
    by (auto simp: updateActiveSearchHighlight_def stateOf_def Let_def split: option.splits)
  then show ?thesis
    using assms
    by (simp add: handleInteractiveSearch_def nextSearchMatch_def Let_def)
qed

text \<open>
  Claim C3, as amended. With \<open>N \<ge> 1\<close> matches, \<open>N\<close> calls of \<open>nextSearchMatch()\<close> from the
  first match (cursor 0, where a finished search leaves it) return to the first match,
  and one call of \<open>prevSearchMatch()\<close> from the first match lands on match \<open>N - 1\<close>. From
  the unset cursor (\<open>-1\<close>), \<open>N\<close> calls of \<open>nextSearchMatch()\<close> land on the last match
  \<open>N - 1\<close>, and it takes \<open>N + 1\<close> calls to be back on the first. No call throws.
\<close>

theorem search_cursor_wraps:
  assumes "searchMatches s \<noteq> []"
  shows "(currentMatchIndex s = 0 \<longrightarrow>
            (\<exists>s'. repeatHandler (length (searchMatches s)) (nextSearchMatch None None) s
                    = Returned s'
                  \<and> currentMatchIndex s' = 0)
          \<and> (\<exists>s'. prevSearchMatch s = Returned s'
                  \<and> currentMatchIndex s' = int (length (searchMatches s)) - 1))
       \<and> (currentMatchIndex s = - 1 \<longrightarrow>
            (\<exists>s'. repeatHandler (length (searchMatches s)) (nextSearchMatch None None) s
                    = Returned s'
                  \<and> currentMatchIndex s' = int (length (searchMatches s)) - 1)
          \<and> (\<exists>s'. repeatHandler (Suc (length (searchMatches s))) (nextSearchMatch None None) s
                    = Returned s'
                  \<and> currentMatchIndex s' = 0))"
proof (intro conjI impI)
  let ?n = "int (length (searchMatches s))"
  have n: "0 < ?n" using assms by simp
  {
    assume c: "currentMatchIndex s = 0"
    from repeat_nextSearchMatch [of s "length (searchMatches s)"] assms c n
    show "\<exists>s'. repeatHandler (length (searchMatches s)) (nextSearchMatch None None) s
                 = Returned s' \<and> currentMatchIndex s' = 0"
      by auto
    from prevSearchMatch_from_first [OF assms c]
    show "\<exists>s'. prevSearchMatch s = Returned s'
               \<and> currentMatchIndex s' = int (length (searchMatches s)) - 1" .
  }
  {
    assume c: "currentMatchIndex s = - 1"
    from nextSearchMatch_step [of s] assms c n
    obtain s1 where s1: "nextSearchMatch None None s = Returned s1"
        "currentMatchIndex s1 = 0" "searchMatches s1 = searchMatches s"
      by auto
    have p: "searchMatches s1 \<noteq> []" "0 \<le> currentMatchIndex s1"
         "currentMatchIndex s1 < int (length (searchMatches s1))"
      using s1 assms n by auto
    obtain m where m: "length (searchMatches s) = Suc m"
      using assms by (cases "searchMatches s") auto
    from repeat_nextSearchMatch [OF p, of m] s1 m
    show "\<exists>s'. repeatHandler (length (searchMatches s)) (nextSearchMatch None None) s
                 = Returned s' \<and> currentMatchIndex s' = int (length (searchMatches s)) - 1"
      by auto
    from repeat_nextSearchMatch [OF p, of "Suc m"] s1 m
    show "\<exists>s'. repeatHandler (Suc (length (searchMatches s))) (nextSearchMatch None None) s
                 = Returned s' \<and> currentMatchIndex s' = 0"
      by auto
  }
qed

theorem search_cursor_wraps_witness:
  "searchMatches (initialReader\<lparr>searchMatches := twoMatches, currentMatchIndex := 0\<rparr>) \<noteq> []
   \<and> currentMatchIndex (initialReader\<lparr>searchMatches := twoMatches, currentMatchIndex := 0\<rparr>) = 0
   \<and> currentMatchIndex (initialReader\<lparr>searchMatches := twoMatches\<rparr>) = - 1
   \<and> (\<exists>s'. repeatHandler 2 (nextSearchMatch None None)
               (initialReader\<lparr>searchMatches := twoMatches, currentMatchIndex := 0\<rparr>)
             = Returned s' \<and> currentMatchIndex s' = 0)
   \<and> (\<exists>s'. prevSearchMatch
               (initialReader\<lparr>searchMatches := twoMatches, currentMatchIndex := 0\<rparr>)
             = Returned s' \<and> currentMatchIndex s' = 1)
   \<and> (\<exists>s'. repeatHandler 3 (nextSearchMatch None None)
               (initialReader\<lparr>searchMatches := twoMatches\<rparr>)
             = Returned s' \<and> currentMatchIndex s' = 0)"
  using search_cursor_wraps
          [of "initialReader\<lparr>searchMatches := twoMatches, currentMatchIndex := 0\<rparr>"]
        search_cursor_wraps [of "initialReader\<lparr>searchMatches := twoMatches\<rparr>"]
  by (simp add: initialReader_def twoMatches_def numeral_2_eq_2 numeral_3_eq_3)

text \<open>
  With two matches and the cursor unset, two calls of \<open>nextSearchMatch()\<close> end on the
  second match, not on the first.
\<close>

theorem next_from_unset_cursor_counterexample:
  "currentMatchIndex (initialReader\<lparr>searchMatches := twoMatches\<rparr>) = - 1
   \<and> length twoMatches = 2
   \<and> currentMatchIndex
         (stateOf (repeatHandler 2 (nextSearchMatch None None)
                     (initialReader\<lparr>searchMatches := twoMatches\<rparr>))) = 1"
  by (simp add: initialReader_def twoMatches_def numeral_2_eq_2 nextSearchMatch_def
        updateActiveSearchHighlight_def arrayAt_def stateOf_def Let_def annotations_remove_def
        sameOverlay_def)

section \<open>Overlays of the interactive search\<close>

lemmas search_defs = handleInteractiveSearch_def flatResults_def nextSearchMatch_def
  updateActiveSearchHighlight_def arrayAt_def stateOf_def Let_def annotations_remove_def
  sameOverlay_def clearByType_def trim_def isSpace_def

lemma afterFirstSearch_state:
  "afterFirstSearch =
     initialReader\<lparr>isSearchBarOpen := True, searchQuery := ''ab'', searchMatches := twoMatches,
       currentMatchIndex := 0, displayed := Some ''epubcfi(/6/4!/4/2,/1:0,/1:2)'',
       renditionRef :=
         Some [\<lparr>o_type = ''highlight'', o_cfiRange = ''epubcfi(/6/4!/4/6,/1:3,/1:5)'',
                o_className = ''search-result''\<rparr>,
               \<lparr>o_type = ''highlight'', o_cfiRange = ''epubcfi(/6/4!/4/2,/1:0,/1:2)'',
                o_className = ''search-result-active''\<rparr>]\<rparr>"
  by (simp add: afterFirstSearch_def initialReader_def oneChapter_def exampleFind_def
        twoMatches_def search_defs)

text \<open>
  Every overlay the Reader adds has the type \<open>'highlight'\<close> or \<open>'underline'\<close>; on such a
  registry the clearing loop of \<open>handleInteractiveSearch\<close> changes nothing.
\<close>

lemma clearByType_noop:
  assumes "\<forall>ov \<in> set registry. o_type ov = ''highlight'' \<or> o_type ov = ''underline''"
  shows "clearByType registry = registry"
proof -
  have "fold (\<lambda>note r. if o_type note = ''search-result'' \<or> o_type note = ''search-result-active''
                     then annotations_remove (o_cfiRange note) (o_type note) r else r) xs r = r"
    if "\<forall>ov \<in> set xs. o_type ov = ''highlight'' \<or> o_type ov = ''underline''" for xs r
    using that by (induction xs arbitrary: r) auto
  with assms show ?thesis by (simp add: clearByType_def)
qed

lemma afterSecondSearch_registry:
  "renditionRef afterSecondSearch =
     Some [\<lparr>o_type = ''highlight'', o_cfiRange = ''epubcfi(/6/4!/4/6,/1:3,/1:5)'',
            o_className = ''search-result''\<rparr>,
           \<lparr>o_type = ''highlight'', o_cfiRange = ''epubcfi(/6/4!/4/2,/1:0,/1:2)'',
            o_className = ''search-result-active''\<rparr>,
           \<lparr>o_type = ''highlight'', o_cfiRange = ''epubcfi(/6/4!/4/10,/1:0,/1:2)'',
            o_className = ''search-result-active''\<rparr>]"
  unfolding afterSecondSearch_def afterFirstSearch_state
  by (simp add: initialReader_def oneChapter_def exampleFind_def cdMatch_def
        twoMatches_def search_defs)

text \<open>\<open>closeSearchBar\<close>, which tests the class name, does remove the same overlays.\<close>

lemma closeSearchBar_clears_example:
  "renditionRef (closeSearchBar afterSecondSearch) = Some []"
  by (simp add: closeSearchBar_def afterSecondSearch_registry clearByClassName_def
        str_includes_def indexOf_def annotations_remove_def sameOverlay_def)

text \<open>
  Claim C4, at the input that falsifies it. The search for \<open>ab\<close> leaves two overlays;
  the loop that is to clear them at the start of the next search tests the \<open>type\<close> of
  an overlay, which is \<open>'highlight'\<close> for a search overlay, so it removes none; after the
  search for \<open>cd\<close> the overlays of \<open>ab\<close> are still there, beside the one of \<open>cd\<close>.
\<close>

theorem second_search_keeps_first_overlays:
  "searchQuery afterSecondSearch = ''cd''
   \<and> searchMatches afterSecondSearch = [cdMatch]
   \<and> renditionRef afterSecondSearch =
       Some [\<lparr>o_type = ''highlight'', o_cfiRange = ''epubcfi(/6/4!/4/6,/1:3,/1:5)'',
              o_className = ''search-result''\<rparr>,
             \<lparr>o_type = ''highlight'', o_cfiRange = ''epubcfi(/6/4!/4/2,/1:0,/1:2)'',
              o_className = ''search-result-active''\<rparr>,
             \<lparr>o_type = ''highlight'', o_cfiRange = ''epubcfi(/6/4!/4/10,/1:0,/1:2)'',
              o_className = ''search-result-active''\<rparr>]"
  unfolding afterSecondSearch_def afterFirstSearch_state
  by (simp add: initialReader_def oneChapter_def exampleFind_def cdMatch_def
        twoMatches_def search_defs)

section \<open>The cap of the batch search\<close>

text \<open>
  A chapter with the text \<open>ab\<close> adds one result for the query \<open>ab\<close>, however long the
  result list already is: the test \<open>results.length > 500\<close> comes after the \<open>push\<close>, and
  its \<open>break\<close> leaves the \<open>while\<close> loop only.
\<close>

lemma searchUnit_abChapter:
  assumes "i < n"
  shows "searchUnit (chaptersAb n) ''ab'' i results =
           results @ [\<lparr>r_cfi = ''ch.xhtml'', r_excerpt = ''ab'', r_label = ''ch'',
                        r_context = ''ab''\<rparr>]"
proof -
  have lower: "toLowerCase ''ab'' = ''ab''"
    by (simp add: toLowerCase_def upperLetters_def lowerLetters_def)
  have clean: "collapseSpaces ''ab'' = ''ab''"
    by (simp add: collapseSpaces_def isSpace_def)
  have first: "indexOf ''ab'' ''ab'' 0 = 0"
    by (simp add: indexOf_def)
  have none: "indexOf ''ab'' ''ab'' 2 = - 1"
    by (simp add: indexOf_def)
  have scan: "scanText ''ab'' ''ab'' ''ab'' ''ab'' ''ch.xhtml'' ''ch'' 0 results =
                results @ [\<lparr>r_cfi = ''ch.xhtml'', r_excerpt = ''ab'', r_label = ''ch'',
                             r_context = ''ab''\<rparr>]"
    by (subst scanText.simps, subst scanText.simps)
       (simp add: none substring_def Let_def)
  show ?thesis
    using assms
    by (simp add: searchUnit_def spine_get_def chaptersAb_def abChapter_def truthy_def
          lower clean first scan Let_def)
qed

lemma forSpine_chaptersAb:
  assumes "i \<le> n"
  shows "length (forSpine (chaptersAb n) ''ab'' n i results) = length results + (n - i)"
  using assms
proof (induction "n - i" arbitrary: i results)
  case 0
  then show ?case by (simp add: forSpine.simps)
next
  case (Suc d)
  then have lt: "i < n" and d: "d = n - Suc i" and le: "Suc i \<le> n" by auto
  have "forSpine (chaptersAb n) ''ab'' n i results =
          forSpine (chaptersAb n) ''ab'' n (Suc i) (searchUnit (chaptersAb n) ''ab'' i results)"
    using lt by (subst forSpine.simps) simp
  then show ?case
    using Suc.hyps(1) [OF d le] lt by (simp add: searchUnit_abChapter)
qed

lemma performSearch_chaptersAb:
  "length (performSearch (Some (chaptersAb n)) ''ab'') = n"
  using forSpine_chaptersAb [of 0 n "[]"]
  by (simp add: performSearch_def chaptersAb_def)

text \<open>
  Claim C2, at an input that falsifies it: for a book of 600 chapters that each contain
  the query once, \<open>performSearch\<close> returns 600 results, more than the cap of 500.
\<close>

theorem performSearch_exceeds_cap:
  "length (performSearch (Some manyChapters) ''ab'') = 600"
  by (simp add: manyChapters_def performSearch_chaptersAb)

section \<open>Inline AI notes of one paragraph\<close>

lemma txtBook_paragraphs: "splitLines (content txtBook) = [''Hello'', ''World'']"
  by (simp add: txtBook_def)

lemma txt_first_click:
  "txtTriggerClick 0 ''1b4e28ba-2fa1-41d2-883f-0016d3cca427'' txtReader =
     txtReader\<lparr>inlineNotes :=
       [\<lparr>note_id = ''1b4e28ba-2fa1-41d2-883f-0016d3cca427'', note_cfi = Some ''txt-0'',
         textContext = ''Hello'', aiResponse = [], isLoading = False, domNode = None\<rparr>]\<rparr>"
  by (simp add: txtTriggerClick_def txtReader_def initialReader_def txtBook_paragraphs
        openInlinePanel_def trim_def isSpace_def showNat.simps digitChar_def Let_def)
     (simp add: txtBook_def)

text \<open>
  Claim C6, at an input that falsifies it. In a plain-text book with inline notes, the
  trigger of the first paragraph is clicked twice. The handler looks for an open note
  whose \<open>id\<close> is \<open>txt-0\<close>, but \<open>openInlinePanel\<close> gives every note a fresh UUID as \<open>id\<close> and
  stores \<open>txt-0\<close> in \<open>cfi\<close>; the note of the first click is not found, and the second
  click opens a second note for the same paragraph.
\<close>

theorem txt_trigger_clicked_twice_duplicates:
  "inlineNotes
     (txtTriggerClick 0 ''6fa459ea-ee8a-4ca4-894e-db77e160355e''
        (txtTriggerClick 0 ''1b4e28ba-2fa1-41d2-883f-0016d3cca427'' txtReader)) =
     [\<lparr>note_id = ''1b4e28ba-2fa1-41d2-883f-0016d3cca427'', note_cfi = Some ''txt-0'',
       textContext = ''Hello'', aiResponse = [], isLoading = False, domNode = None\<rparr>,
      \<lparr>note_id = ''6fa459ea-ee8a-4ca4-894e-db77e160355e'', note_cfi = Some ''txt-0'',
       textContext = ''Hello'', aiResponse = [], isLoading = False, domNode = None\<rparr>]"
  unfolding txt_first_click
  by (simp add: txtTriggerClick_def txtReader_def initialReader_def txtBook_paragraphs
        openInlinePanel_def trim_def isSpace_def showNat.simps digitChar_def Let_def)
     (simp add: txtBook_def)

text \<open>
  The trigger of an EPUB paragraph tests the DOM instead (the next sibling is a portal
  mount): with inline notes a second click on the same paragraph changes nothing.
\<close>

lemma epubTriggerClick_twice_inline:
  assumes "aiDisplayMode s = inline"
  shows "epubTriggerClick k now2 uuid2 (epubTriggerClick k now1 uuid1 s) =
           epubTriggerClick k now1 uuid1 s"
proof (cases "arrayAt (nodes (document s)) (int k)")
  case None
  then show ?thesis by (simp add: epubTriggerClick_def)
next
  case (Some nd)
  show ?thesis
  proof (cases nd)
    case (PortalMount h)
    with Some show ?thesis by (simp add: epubTriggerClick_def)
  next
    case (Paragraph t)
    show ?thesis
    proof (cases "\<exists>h. arrayAt (nodes (document s)) (int k + 1) = Some (PortalMount h)")
      case True
      with Some Paragraph show ?thesis by (auto simp: epubTriggerClick_def)
    next
      case False
      let ?h = "created (document s)"
      let ?d = "(insertAfter k (PortalMount ?h) (document s))\<lparr>created := Suc ?h\<rparr>"
      let ?s1 = "openInlinePanel t (''p-'' @ showNat now1) (Some ?h) uuid1 (s\<lparr>document := ?d\<rparr>)"
      have k: "k < length (nodes (document s))" "nodes (document s) ! k = Paragraph t"
        using Some Paragraph by (auto simp: arrayAt_def split: if_splits)
      have first: "epubTriggerClick k now1 uuid1 s = ?s1"
        using Some Paragraph False assms
        by (auto simp: epubTriggerClick_def Let_def split: option.splits Node.splits)
      have doc: "document ?s1 = ?d"
        using assms by (simp add: openInlinePanel_def Let_def)
      have a: "arrayAt (nodes ?d) (int k) = Some (Paragraph t)"
        using k by (simp add: arrayAt_def insertAfter_def nth_append)
      have b: "arrayAt (nodes ?d) (int k + 1) = Some (PortalMount ?h)"
        using k by (simp add: arrayAt_def insertAfter_def nth_append nat_add_distrib)
      have "epubTriggerClick k now2 uuid2 ?s1 = ?s1"
        unfolding epubTriggerClick_def doc a b by simp
      with first show ?thesis by simp
    qed
  qed
qed

section \<open>Annotations by anchor\<close>

lemma filter_replace_at:
  assumes "cfiRange new = anchor"
  shows "filter (\<lambda>a. cfiRange a = anchor)
           (map (\<lambda>a. if cfiRange a = anchor then new else a) xs) =
         map (\<lambda>a. new) (filter (\<lambda>a. cfiRange a = anchor) xs)"
  using assms by (induction xs) auto

lemma filter_replace_other:
  assumes "cfiRange new = anchor" and "other \<noteq> anchor"
  shows "filter (\<lambda>a. cfiRange a = other)
           (map (\<lambda>a. if cfiRange a = anchor then new else a) xs) =
         filter (\<lambda>a. cfiRange a = other) xs"
  using assms by (induction xs) auto

lemma handleSaveAnnotation_create:
  assumes "renditionRef s \<noteq> None" and "editingAnnotation s = None"
    and "pendingAnnotation s = Some p" and "p_cfi p \<noteq> []" and "p_text p \<noteq> []"
  shows "annotations (handleSaveAnnotation data isoNow now s) =
           annotations s @ [\<lparr>cfiRange = p_cfi p, a_text = p_text p, a_note = f_note data,
                              color = f_color data, style = f_style data, tags = f_tags data,
                              date = isoNow\<rparr>]"
  using assms by (auto simp: handleSaveAnnotation_def truthy_def Let_def)

lemma handleSaveAnnotation_edit:
  assumes "renditionRef s \<noteq> None" and "editingAnnotation s = Some e"
    and "cfiRange e \<noteq> []" and "a_text e \<noteq> []"
  shows "annotations (handleSaveAnnotation data isoNow now s) =
           map (\<lambda>a. if cfiRange a = cfiRange e
                     then \<lparr>cfiRange = cfiRange e, a_text = a_text e, a_note = f_note data,
                            color = f_color data, style = f_style data, tags = f_tags data,
                            date = isoNow\<rparr>
                     else a) (annotations s)"
  using assms by (auto simp: handleSaveAnnotation_def truthy_def Let_def)

text \<open>
  Claim C1, as amended. Saving from the create flow appends the new annotation to the
  list as it was; at an anchor that had no annotation, the new one is then the only
  annotation at that anchor. Saving from the edit flow, which the Reader opens on an
  existing annotation, overwrites in place: the list after the save is the list before
  it with the annotation at the anchor replaced, at its position, by the one just saved
  (same anchor and quoted text, the note, colour, style and tags of the modal, the
  current date); an anchor that had one annotation has one, the new one; the annotations
  at every other anchor are what they were.
\<close>

theorem save_annotation_by_anchor:
  assumes "renditionRef s \<noteq> None"
  shows "(editingAnnotation s = None \<and> pendingAnnotation s = Some p
            \<and> p_cfi p \<noteq> [] \<and> p_text p \<noteq> [] \<longrightarrow>
          annotations (handleSaveAnnotation data isoNow now s)
            = annotations s @ [\<lparr>cfiRange = p_cfi p, a_text = p_text p, a_note = f_note data,
                                 color = f_color data, style = f_style data,
                                 tags = f_tags data, date = isoNow\<rparr>]
          \<and> (annotationsAt (p_cfi p) s = [] \<longrightarrow>
               annotationsAt (p_cfi p) (handleSaveAnnotation data isoNow now s)
                 = [\<lparr>cfiRange = p_cfi p, a_text = p_text p, a_note = f_note data,
                     color = f_color data, style = f_style data,
                     tags = f_tags data, date = isoNow\<rparr>]))
       \<and> (editingAnnotation s = Some e \<and> cfiRange e \<noteq> [] \<and> a_text e \<noteq> [] \<longrightarrow>
          annotations (handleSaveAnnotation data isoNow now s)
            = map (\<lambda>a. if cfiRange a = cfiRange e
                        then \<lparr>cfiRange = cfiRange e, a_text = a_text e, a_note = f_note data,
                               color = f_color data, style = f_style data,
                               tags = f_tags data, date = isoNow\<rparr>
                        else a) (annotations s)
          \<and> (\<forall>old. annotationsAt (cfiRange e) s = [old] \<longrightarrow>
               annotationsAt (cfiRange e) (handleSaveAnnotation data isoNow now s)
                 = [\<lparr>cfiRange = cfiRange e, a_text = a_text e, a_note = f_note data,
                     color = f_color data, style = f_style data,
                     tags = f_tags data, date = isoNow\<rparr>])
          \<and> (\<forall>anchor. anchor \<noteq> cfiRange e \<longrightarrow>
               annotationsAt anchor (handleSaveAnnotation data isoNow now s)
                 = annotationsAt anchor s))"
proof (intro conjI impI allI)
  assume c: "editingAnnotation s = None \<and> pendingAnnotation s = Some p
            \<and> p_cfi p \<noteq> [] \<and> p_text p \<noteq> []"
  let ?new = "\<lparr>cfiRange = p_cfi p, a_text = p_text p, a_note = f_note data,
                color = f_color data, style = f_style data, tags = f_tags data,
                date = isoNow\<rparr>"
  show ann: "annotations (handleSaveAnnotation data isoNow now s) = annotations s @ [?new]"
    using handleSaveAnnotation_create [OF assms, of p data isoNow now] c by simp
  assume "annotationsAt (p_cfi p) s = []"
  then show "annotationsAt (p_cfi p) (handleSaveAnnotation data isoNow now s) = [?new]"
    by (simp add: annotationsAt_def ann)
next
  assume c: "editingAnnotation s = Some e \<and> cfiRange e \<noteq> [] \<and> a_text e \<noteq> []"
  let ?new = "\<lparr>cfiRange = cfiRange e, a_text = a_text e, a_note = f_note data,
                color = f_color data, style = f_style data, tags = f_tags data,
                date = isoNow\<rparr>"
  show ann: "annotations (handleSaveAnnotation data isoNow now s) =
      map (\<lambda>a. if cfiRange a = cfiRange e then ?new else a) (annotations s)"
    using handleSaveAnnotation_edit [OF assms, of e data isoNow now] c by simp
  {
    fix old assume "annotationsAt (cfiRange e) s = [old]"
    moreover have "annotationsAt (cfiRange e) (handleSaveAnnotation data isoNow now s) =
        map (\<lambda>a. ?new) (annotationsAt (cfiRange e) s)"
      unfolding annotationsAt_def ann by (rule filter_replace_at) simp
    ultimately show "annotationsAt (cfiRange e) (handleSaveAnnotation data isoNow now s) = [?new]"
      by simp
  }
  {
    fix anchor assume "anchor \<noteq> cfiRange e"
    then show "annotationsAt anchor (handleSaveAnnotation data isoNow now s)
                 = annotationsAt anchor s"
      unfolding annotationsAt_def ann by (intro filter_replace_other) simp_all
  }
qed

lemmas flow_defs = createFlow_def onSelected_def onMarkClicked_def
  handleOpenAnnotationModal_def handleSaveAnnotation_def truthy_def trim_def isSpace_def
  Let_def styleName_def annotations_remove_def sameOverlay_def

lemma annotatedOnce_annotations: "annotations annotatedOnce = [helloAnnotation]"
  by (simp add: annotatedOnce_def initialReader_def selectionHello_def yellowHighlight_def
        helloAnnotation_def flow_defs)

lemma pendingHello_state:
  "renditionRef pendingHello = Some [] \<and> editingAnnotation pendingHello = None
   \<and> pendingAnnotation pendingHello
       = Some \<lparr>p_cfi = ''epubcfi(/6/4!/4/2,/1:0,/1:5)'', p_text = ''Hello''\<rparr>
   \<and> annotations pendingHello = []"
  by (simp add: pendingHello_def initialReader_def selectionHello_def flow_defs)

lemma annotatedBoth_state:
  "renditionRef annotatedBoth \<noteq> None
   \<and> annotations annotatedBoth = [helloAnnotation, worldAnnotation]"
  by (simp add: annotatedBoth_def annotatedOnce_def initialReader_def selectionHello_def
        selectionWorld_def yellowHighlight_def helloAnnotation_def worldAnnotation_def
        flow_defs)

lemma editingHello_state:
  "renditionRef editingHello \<noteq> None \<and> editingAnnotation editingHello = Some helloAnnotation
   \<and> annotations editingHello = [helloAnnotation, worldAnnotation]"
  using annotatedBoth_state
  by (simp add: editingHello_def onMarkClicked_def helloAnnotation_def)


theorem save_annotation_by_anchor_witness:
  "renditionRef pendingHello \<noteq> None \<and> editingAnnotation pendingHello = None
   \<and> pendingAnnotation pendingHello
       = Some \<lparr>p_cfi = ''epubcfi(/6/4!/4/2,/1:0,/1:5)'', p_text = ''Hello''\<rparr>
   \<and> annotationsAt ''epubcfi(/6/4!/4/2,/1:0,/1:5)'' pendingHello = []
   \<and> annotations
         (handleSaveAnnotation yellowHighlight ''2024-05-01T10:00:00.000Z'' 1000 pendingHello)
       = [helloAnnotation]
   \<and> annotationsAt ''epubcfi(/6/4!/4/2,/1:0,/1:5)''
         (handleSaveAnnotation yellowHighlight ''2024-05-01T10:00:00.000Z'' 1000 pendingHello)
       = [helloAnnotation]
   \<and> renditionRef editingHello \<noteq> None \<and> editingAnnotation editingHello = Some helloAnnotation
   \<and> cfiRange helloAnnotation \<noteq> [] \<and> a_text helloAnnotation \<noteq> []
   \<and> annotations editingHello = [helloAnnotation, worldAnnotation]
   \<and> annotations
         (handleSaveAnnotation blueUnderline ''2024-05-01T10:05:00.000Z'' 2000 editingHello)
       = [helloEdited, worldAnnotation]
   \<and> annotationsAt ''epubcfi(/6/4!/4/2,/1:0,/1:5)''
         (handleSaveAnnotation blueUnderline ''2024-05-01T10:05:00.000Z'' 2000 editingHello)
       = [helloEdited]
   \<and> annotationsAt ''epubcfi(/6/4!/4/2,/1:6,/1:11)''
         (handleSaveAnnotation blueUnderline ''2024-05-01T10:05:00.000Z'' 2000 editingHello)
       = [worldAnnotation]"
proof -
  have r1: "renditionRef pendingHello \<noteq> None" using pendingHello_state by simp
  have r2: "renditionRef editingHello \<noteq> None" using editingHello_state by simp
  show ?thesis
    using save_annotation_by_anchor [OF r1,
            where p = "\<lparr>p_cfi = ''epubcfi(/6/4!/4/2,/1:0,/1:5)'', p_text = ''Hello''\<rparr>"
              and data = yellowHighlight and isoNow = "''2024-05-01T10:00:00.000Z''"
              and now = 1000]
          save_annotation_by_anchor [OF r2,
            where e = helloAnnotation
              and data = blueUnderline and isoNow = "''2024-05-01T10:05:00.000Z''"
              and now = 2000]
          pendingHello_state editingHello_state
    by (simp add: annotationsAt_def helloAnnotation_def worldAnnotation_def helloEdited_def
          yellowHighlight_def blueUnderline_def)
qed

text \<open>
  The same text is selected and annotated a second time through the create flow: the list
  then holds two annotations at the one anchor.
\<close>

theorem second_create_duplicates_counterexample:
  "map cfiRange (annotations annotatedOnce) = [''epubcfi(/6/4!/4/2,/1:0,/1:5)'']
   \<and> map cfiRange
         (annotations (createFlow selectionHello blueUnderline ''2024-05-01T10:05:00.000Z'' 2000
                         annotatedOnce))
       = [''epubcfi(/6/4!/4/2,/1:0,/1:5)'', ''epubcfi(/6/4!/4/2,/1:0,/1:5)'']"
  by (simp add: annotatedOnce_def initialReader_def selectionHello_def yellowHighlight_def
        blueUnderline_def flow_defs)

section \<open>Calling a removal twice\<close>
















section \<open>Importing a book\<close>

lemmas string_defs = toLowerCase_def upperLetters_def lowerLetters_def isLowerAlnum_def
  endsWith_def

lemma idString_Alpha_Bob: "idString ''Alpha'' ''Bob'' = ''alphabob''"
  by (simp add: idString_def string_defs)

lemma sniff_epub: "sniffType ''alpha.epub'' = epub_type"
  by (simp add: sniffType_def string_defs)

lemma sniff_txt: "sniffType ''Alpha.txt'' = txt_type"
  by (simp add: sniffType_def string_defs)

lemma importId_alpha_epub: "importId ''alpha.epub'' (Some alphaMetadata) uuid = ''alphabob''"
  by (simp add: importId_def importTitle_def importAuthor_def sniff_epub alphaMetadata_def
        truthy_def idString_Alpha_Bob)

lemma importId_alpha_txt: "importId ''Alpha.txt'' None uuid = ''alphaunknownauthor''"
  by (simp add: importId_def importTitle_def importAuthor_def sniff_txt stripExtension_def
        idString_def string_defs)

lemma importId_star_epub: "importId ''alpha.epub'' (Some starMetadata) uuid = uuid"
  by (simp add: importId_def importTitle_def importAuthor_def sniff_epub starMetadata_def
        truthy_def idString_def string_defs)

lemma hasBook_append:
  "hasBook ident (books @ [b]) = (hasBook ident books \<or> book_id b = ident)"
  by (induction books) (auto simp: hasBook_def)

lemma handleAddBook_again:
  assumes "importId fileName metadata uuid2 = importId fileName metadata uuid1"
  shows "handleAddBook fileName result metadata uuid2
           (handleAddBook fileName result metadata uuid1 books) =
         handleAddBook fileName result metadata uuid1 books"
  using assms
  by (auto simp: handleAddBook_def Let_def hasBook_append split: option.splits)

lemma importId_deterministic:
  assumes "idString (importTitle fileName metadata) (importAuthor fileName metadata) \<noteq> []"
  shows "importId fileName metadata uuid2 = importId fileName metadata uuid1"
  using assms by (simp add: importId_def)

text \<open>
  Claim C5, as amended. A book that an import adds has the title and author the import
  derived, and its id is the lower-cased string \<open>title-author\<close> with every character
  outside \<open>a-z0-9\<close> removed (the hyphen included), or the random id when nothing is
  left. When something is left, importing the same file again leaves the library as the
  first import made it. An EPUB titled \<open>Alpha\<close> by \<open>Bob\<close> gets the id \<open>alphabob\<close>; the
  plain-text file \<open>Alpha.txt\<close>, whose author is always \<open>Unknown Author\<close>, gets
  \<open>alphaunknownauthor\<close>.
\<close>

theorem import_id_and_reimport:
  "(\<forall>b \<in> set (handleAddBook fileName result metadata uuid books).
       b \<in> set books
       \<or> (title b = importTitle fileName metadata \<and> author b = importAuthor fileName metadata
          \<and> book_id b = (if idString (title b) (author b) = [] then uuid
                          else idString (title b) (author b))))
   \<and> (idString (importTitle fileName metadata) (importAuthor fileName metadata) \<noteq> [] \<longrightarrow>
        handleAddBook fileName result metadata uuid2
          (handleAddBook fileName result metadata uuid books) =
        handleAddBook fileName result metadata uuid books)
   \<and> map book_id (handleAddBook ''alpha.epub'' (Some ''PK'') (Some alphaMetadata) uuid [])
       = [''alphabob'']
   \<and> map book_id (handleAddBook ''Alpha.txt'' (Some ''Once upon a time'') None uuid [])
       = [''alphaunknownauthor'']"
proof (intro conjI impI ballI)
  fix b assume "b \<in> set (handleAddBook fileName result metadata uuid books)"
  then show "b \<in> set books
       \<or> (title b = importTitle fileName metadata \<and> author b = importAuthor fileName metadata
          \<and> book_id b = (if idString (title b) (author b) = [] then uuid
                          else idString (title b) (author b)))"
    by (auto simp: handleAddBook_def Let_def importId_def split: option.splits if_splits)
next
  assume "idString (importTitle fileName metadata) (importAuthor fileName metadata) \<noteq> []"
  from handleAddBook_again [OF importId_deterministic [OF this]]
  show "handleAddBook fileName result metadata uuid2
          (handleAddBook fileName result metadata uuid books) =
        handleAddBook fileName result metadata uuid books" .
next
  show "map book_id (handleAddBook ''alpha.epub'' (Some ''PK'') (Some alphaMetadata) uuid [])
       = [''alphabob'']"
    by (simp add: handleAddBook_def sniff_epub importId_alpha_epub hasBook_def Let_def)
next
  show "map book_id (handleAddBook ''Alpha.txt'' (Some ''Once upon a time'') None uuid [])
       = [''alphaunknownauthor'']"
    by (simp add: handleAddBook_def sniff_txt importId_alpha_txt hasBook_def Let_def)
qed

theorem import_id_and_reimport_witness:
  "idString (importTitle ''alpha.epub'' (Some alphaMetadata))
            (importAuthor ''alpha.epub'' (Some alphaMetadata)) \<noteq> []
   \<and> handleAddBook ''alpha.epub'' (Some ''PK'') (Some alphaMetadata)
         ''6fa459ea-ee8a-4ca4-894e-db77e160355e''
         (handleAddBook ''alpha.epub'' (Some ''PK'') (Some alphaMetadata)
            ''1b4e28ba-2fa1-41d2-883f-0016d3cca427'' []) =
       handleAddBook ''alpha.epub'' (Some ''PK'') (Some alphaMetadata)
         ''1b4e28ba-2fa1-41d2-883f-0016d3cca427'' []
   \<and> map book_id (handleAddBook ''alpha.epub'' (Some ''PK'') (Some alphaMetadata)
         ''1b4e28ba-2fa1-41d2-883f-0016d3cca427'' []) = [''alphabob'']"
proof -
  have h: "idString (importTitle ''alpha.epub'' (Some alphaMetadata))
            (importAuthor ''alpha.epub'' (Some alphaMetadata)) \<noteq> []"
    by (simp add: importTitle_def importAuthor_def sniff_epub alphaMetadata_def truthy_def
          idString_Alpha_Bob)
  show ?thesis
    using h import_id_and_reimport
            [of "''alpha.epub''" "Some ''PK''" "Some alphaMetadata"
                "''1b4e28ba-2fa1-41d2-883f-0016d3cca427''" "[]"
                "''6fa459ea-ee8a-4ca4-894e-db77e160355e''"]
    by simp
qed

text \<open>
  The ids of \<open>Alpha.txt\<close> and of the EPUB \<open>Alpha\<close> by \<open>Bob\<close> are not \<open>alpha-bob\<close>; and an
  EPUB whose title and author hold no letter or digit is added a second time, under a new
  random id, when it is imported again.
\<close>

theorem import_slug_and_random_id_counterexample:
  "map book_id (handleAddBook ''Alpha.txt'' (Some ''Once upon a time'') None
                  ''1b4e28ba-2fa1-41d2-883f-0016d3cca427'' [])
     = [''alphaunknownauthor'']
   \<and> map book_id (handleAddBook ''alpha.epub'' (Some ''PK'') (Some alphaMetadata)
                  ''1b4e28ba-2fa1-41d2-883f-0016d3cca427'' [])
     = [''alphabob'']
   \<and> ''alphabob'' \<noteq> ''alpha-bob''
   \<and> map book_id
        (handleAddBook ''alpha.epub'' (Some ''PK'') (Some starMetadata)
           ''6fa459ea-ee8a-4ca4-894e-db77e160355e''
           (handleAddBook ''alpha.epub'' (Some ''PK'') (Some starMetadata)
              ''1b4e28ba-2fa1-41d2-883f-0016d3cca427'' []))
     = [''1b4e28ba-2fa1-41d2-883f-0016d3cca427'', ''6fa459ea-ee8a-4ca4-894e-db77e160355e'']"
  by (simp add: handleAddBook_def sniff_epub sniff_txt importId_alpha_epub importId_alpha_txt
        importId_star_epub hasBook_def Let_def)

end
